theory Spec2Isabelle
  imports Main "HOL-Library.Multiset"
begin

section \<open>The trusted checksum registry of internal/cli/versions.go\<close>

text \<open>
  A shallow embedding of the versions database: the platform key resolver, the schema
  validator, the lookup and extension operations, the loader and the bootstrap of the
  bundled document. Go strings are byte sequences, modelled as \<open>string\<close> (a list of
  8-bit characters). The Go \<open>int\<close> of \<open>schema_version\<close> is only compared and printed,
  never computed with, and is modelled as \<open>int\<close>.
\<close>

subsection \<open>Library functions of package strings\<close>

text \<open>
  \<open>strings.TrimSpace\<close> removes leading and trailing white space as Unicode defines it.
  On the bytes of a Go string this means: remove, from either end, every complete UTF-8
  encoding of a code point with the White_Space property. The decoder accepts shortest-form
  encodings only, so each such code point has exactly one byte sequence; an invalid byte
  decodes to U+FFFD, which is not white space, and stops the trimming.
  \<open>whiteSpace\<close> lists these byte sequences: the six ASCII ones, U+0085, U+00A0, U+1680,
  U+2000 to U+200A, U+2028, U+2029, U+202F, U+205F and U+3000.
\<close>

definition whiteSpace :: "string list" where
  "whiteSpace =
     [[CHR 0x09], [CHR 0x0A], [CHR 0x0B], [CHR 0x0C], [CHR 0x0D], [CHR 0x20],
      [CHR 0xC2, CHR 0x85], [CHR 0xC2, CHR 0xA0],
      [CHR 0xE1, CHR 0x9A, CHR 0x80],
      [CHR 0xE2, CHR 0x80, CHR 0x80], [CHR 0xE2, CHR 0x80, CHR 0x81],
      [CHR 0xE2, CHR 0x80, CHR 0x82], [CHR 0xE2, CHR 0x80, CHR 0x83],
      [CHR 0xE2, CHR 0x80, CHR 0x84], [CHR 0xE2, CHR 0x80, CHR 0x85],
      [CHR 0xE2, CHR 0x80, CHR 0x86], [CHR 0xE2, CHR 0x80, CHR 0x87],
      [CHR 0xE2, CHR 0x80, CHR 0x88], [CHR 0xE2, CHR 0x80, CHR 0x89],
      [CHR 0xE2, CHR 0x80, CHR 0x8A],
      [CHR 0xE2, CHR 0x80, CHR 0xA8], [CHR 0xE2, CHR 0x80, CHR 0xA9],
      [CHR 0xE2, CHR 0x80, CHR 0xAF],
      [CHR 0xE2, CHR 0x81, CHR 0x9F],
      [CHR 0xE3, CHR 0x80, CHR 0x80]]"

definition HasPrefix :: "string \<Rightarrow> string \<Rightarrow> bool" where
  "HasPrefix s p = (take (length p) s = p)"

definition TrimPrefix :: "string \<Rightarrow> string \<Rightarrow> string" where
  "TrimPrefix s p = (if HasPrefix s p then drop (length p) s else s)"

text \<open>
  \<open>stripLeading ts s\<close> removes from the front of \<open>s\<close> every occurrence of one of the
  non-empty byte sequences \<open>ts\<close>, until none of them starts the rest.
\<close>

function stripLeading :: "string list \<Rightarrow> string \<Rightarrow> string" where
  "stripLeading ts s =
     (case List.find (\<lambda>t. t \<noteq> [] \<and> HasPrefix s t) ts of
        None \<Rightarrow> s
      | Some t \<Rightarrow> stripLeading ts (drop (length t) s))"
  by pat_completeness auto
termination
proof (relation "measure (\<lambda>(ts, s). length s)")
  show "wf (measure (\<lambda>(ts, s). length s))" by simp
next
  fix ts :: "string list" and s t :: string
  assume "List.find (\<lambda>t. t \<noteq> [] \<and> HasPrefix s t) ts = Some t"
  then have "t \<noteq> []" and "HasPrefix s t"
    by (auto simp: find_Some_iff)
  then have "s \<noteq> []"
    by (auto simp: HasPrefix_def)
  with \<open>t \<noteq> []\<close> show "((ts, drop (length t) s), (ts, s)) \<in> measure (\<lambda>(ts, s). length s)"
    by simp
qed

declare stripLeading.simps [simp del]

definition TrimSpace :: "string \<Rightarrow> string" where
  "TrimSpace s = rev (stripLeading (map rev whiteSpace) (rev (stripLeading whiteSpace s)))"

fun Join :: "string list \<Rightarrow> string \<Rightarrow> string" where
  "Join [] sep = []"
| "Join [x] sep = x"
| "Join (x # y # ys) sep = x @ sep @ Join (y # ys) sep"

text \<open>\<open>strings.Contains\<close>: the substring occurs somewhere in the string.\<close>

fun Contains :: "string \<Rightarrow> string \<Rightarrow> bool" where
  "Contains [] sub = (sub = [])"
| "Contains (c # cs) sub = (HasPrefix (c # cs) sub \<or> Contains cs sub)"

subsection \<open>Formatting verbs of package fmt\<close>

text \<open>The verb \<open>%d\<close> on an integer: its decimal digits, with a minus sign when negative.\<close>

definition digit_char :: "nat \<Rightarrow> char" where
  "digit_char d = ''0123456789'' ! d"

function digits :: "nat \<Rightarrow> string" where
  "digits n = (if n < 10 then [digit_char n] else digits (n div 10) @ [digit_char (n mod 10)])"
  by pat_completeness auto
termination
  by (relation "measure id") auto

declare digits.simps [simp del]

definition fmt_d :: "int \<Rightarrow> string" where
  "fmt_d i = (if i < 0 then CHR ''-'' # digits (nat (- i)) else digits (nat i))"

subsection \<open>The two regular expressions\<close>

text \<open>
  \<open>semverLike\<close> is \<open>^\d+\.\d+\.\d+$\<close> and \<open>hexSHA256\<close> is \<open>^[a-f0-9]{64}$\<close>. In Go's
  regexp syntax \<open>\d\<close> is an ASCII digit, and without the multi-line flag \<open>^\<close> and \<open>$\<close> match
  only at the two ends of the text. A run of digits can only be followed by a dot or by the
  end here, so the greedy reading below accepts exactly the strings the expression does
  (\<open>semverLike_iff\<close> states it).
\<close>

definition is_digit :: "char \<Rightarrow> bool" where
  "is_digit c = (c \<in> set ''0123456789'')"

definition is_lower_hex :: "char \<Rightarrow> bool" where
  "is_lower_hex c = (c \<in> set ''abcdef0123456789'')"

text \<open>\<open>digits_then_dot s\<close>: \<open>s\<close> starts with \<open>\d+\.\<close>; the result is what follows.\<close>

definition digits_then_dot :: "string \<Rightarrow> string option" where
  "digits_then_dot s =
     (case dropWhile is_digit s of
        [] \<Rightarrow> None
      | c # rest \<Rightarrow> if c = CHR ''.'' \<and> takeWhile is_digit s \<noteq> [] then Some rest else None)"

definition semverLike :: "string \<Rightarrow> bool" where
  "semverLike s =
     (case digits_then_dot s of
        None \<Rightarrow> False
      | Some r1 \<Rightarrow>
          (case digits_then_dot r1 of
             None \<Rightarrow> False
           | Some r2 \<Rightarrow> r2 \<noteq> [] \<and> list_all is_digit r2))"

definition hexSHA256 :: "string \<Rightarrow> bool" where
  "hexSHA256 s = (length s = 64 \<and> list_all is_lower_hex s)"

subsection \<open>Errors\<close>

text \<open>
  A Go \<open>error\<close> value is one of: a plain message (\<open>errors.New\<close>, or \<open>fmt.Errorf\<close> without
  \<open>%w\<close>); a message wrapping another error (\<open>fmt.Errorf\<close> with \<open>%w\<close>, whose \<open>Unwrap\<close> gives
  the cause); the \<open>ValidationError\<close> of this file; an \<open>*fs.PathError\<close> of package os (the
  operation, the path and the system error); an error of the YAML library. A \<open>nil\<close> error is
  \<open>None\<close> of \<open>error option\<close>.
\<close>

datatype errno = ENOENT | ENOTDIR | EISDIR | Errno string

datatype error =
    ErrorString string
  | WrapError string error
  | ValidationError "string list"
  | PathError string string errno
  | YAMLError string

fun errno_text :: "errno \<Rightarrow> string" where
  "errno_text ENOENT = ''no such file or directory''"
| "errno_text ENOTDIR = ''not a directory''"
| "errno_text EISDIR = ''is a directory''"
| "errno_text (Errno msg) = msg"

fun Error :: "error \<Rightarrow> string" where
  "Error (ErrorString msg) = msg"
| "Error (WrapError msg cause) = msg"
| "Error (ValidationError errs) =
     (if length errs = 0 then ''schema validation failed''
      else ''schema validation failed: '' @ Join errs ''; '')"
| "Error (PathError op path e) = op @ '' '' @ path @ '': '' @ errno_text e"
| "Error (YAMLError msg) = msg"

text \<open>\<open>fmt.Errorf(format, ..., err)\<close> with a final \<open>: %w\<close>: the message ends with the cause's.\<close>

definition Errorf_w :: "string \<Rightarrow> error \<Rightarrow> error" where
  "Errorf_w msg cause = WrapError (msg @ '': '' @ Error cause) cause"

fun IsNotExist :: "error \<Rightarrow> bool" where
  "IsNotExist (PathError op path e) = (e = ENOENT)"
| "IsNotExist _ = False"

subsection \<open>The data model\<close>

record PlatformChecksums =
  LinuxAMD64 :: string
  LinuxARM64 :: string
  DarwinAMD64 :: string
  DarwinARM64 :: string
  WindowsAMD64 :: string

text \<open>
  A Go map is \<open>nil\<close> (\<open>None\<close>) or holds key-value pairs with distinct keys. The pairs are
  kept as a list whose order stands for the order in which one \<open>range\<close> statement visits
  them; Go leaves that order unspecified, and every statement below holds for every order.
\<close>

type_synonym 'v gomap = "(string \<times> 'v) list option"

definition map_len :: "'v gomap \<Rightarrow> nat" where
  "map_len m = (case m of None \<Rightarrow> 0 | Some kvs \<Rightarrow> length kvs)"

definition map_range :: "'v gomap \<Rightarrow> (string \<times> 'v) list" where
  "map_range m = (case m of None \<Rightarrow> [] | Some kvs \<Rightarrow> kvs)"

text \<open>\<open>v, ok := m[k]\<close>: \<open>None\<close> when \<open>ok\<close> is false.\<close>

definition map_index :: "'v gomap \<Rightarrow> string \<Rightarrow> 'v option" where
  "map_index m k = (case m of None \<Rightarrow> None | Some kvs \<Rightarrow> map_of kvs k)"

text \<open>\<open>m[k] = v\<close> on a map that is not \<open>nil\<close>.\<close>

fun map_store :: "(string \<times> 'v) list \<Rightarrow> string \<Rightarrow> 'v \<Rightarrow> (string \<times> 'v) list" where
  "map_store [] k v = [(k, v)]"
| "map_store ((k', v') # kvs) k v =
     (if k' = k then (k, v) # kvs else (k', v') # map_store kvs k v)"

record VersionsDB =
  SchemaVersion :: int
  GeneratedAt :: string
  Versions :: "PlatformChecksums gomap"

definition SchemaVersion_const :: int where
  "SchemaVersion_const = 1"

definition defaultVersionsFilename :: string where
  "defaultVersionsFilename = ''1password-cli-versions.yaml''"

definition amd64Architecture :: string where "amd64Architecture = ''amd64''"
definition arm64Architecture :: string where "arm64Architecture = ''arm64''"
definition linuxOS :: string where "linuxOS = ''linux''"
definition darwinOS :: string where "darwinOS = ''darwin''"
definition windowsOS :: string where "windowsOS = ''windows''"

subsection \<open>NormalizeVersion, ComputePlatformKey, GetExpectedSHA\<close>

definition NormalizeVersion :: "string \<Rightarrow> string" where
  "NormalizeVersion v = TrimPrefix (TrimSpace v) ''v''"

text \<open>
  The two nested \<open>switch\<close> statements: a case of the outer switch whose inner switch matches
  nothing leaves both and reaches the final \<open>return\<close>.
\<close>

definition ComputePlatformKey :: "string \<Rightarrow> string \<Rightarrow> error + string" where
  "ComputePlatformKey goos goarch =
     (let unsupported = Inl (ErrorString (''unsupported platform: '' @ goos @ ''_'' @ goarch)) in
      if goos = linuxOS then
        (if goarch = amd64Architecture then Inr ''linux_amd64''
         else if goarch = arm64Architecture then Inr ''linux_arm64''
         else unsupported)
      else if goos = darwinOS then
        (if goarch = amd64Architecture then Inr ''darwin_amd64''
         else if goarch = arm64Architecture then Inr ''darwin_arm64''
         else unsupported)
      else if goos = windowsOS then
        (if goarch = amd64Architecture then Inr ''windows_amd64''
         else unsupported)
      else unsupported)"

text \<open>The receiver is a pointer: \<open>None\<close> is the \<open>nil\<close> registry.\<close>

definition GetExpectedSHA :: "VersionsDB option \<Rightarrow> string \<Rightarrow> string \<Rightarrow> string \<times> bool" where
  "GetExpectedSHA db version platformKey =
     (case db of
        None \<Rightarrow> ([], False)
      | Some d \<Rightarrow>
          (let v = NormalizeVersion version in
           case map_index (Versions d) v of
             None \<Rightarrow> ([], False)
           | Some pcs \<Rightarrow>
               if platformKey = ''linux_amd64'' then (LinuxAMD64 pcs, LinuxAMD64 pcs \<noteq> [])
               else if platformKey = ''linux_arm64'' then (LinuxARM64 pcs, LinuxARM64 pcs \<noteq> [])
               else if platformKey = ''darwin_amd64'' then (DarwinAMD64 pcs, DarwinAMD64 pcs \<noteq> [])
               else if platformKey = ''darwin_arm64'' then (DarwinARM64 pcs, DarwinARM64 pcs \<noteq> [])
               else if platformKey = ''windows_amd64'' then (WindowsAMD64 pcs, WindowsAMD64 pcs \<noteq> [])
               else ([], False)))"

subsection \<open>Validate\<close>

definition checkPairs :: "PlatformChecksums \<Rightarrow> (string \<times> string) list" where
  "checkPairs pcs =
     [(''linux_amd64'', LinuxAMD64 pcs),
      (''linux_arm64'', LinuxARM64 pcs),
      (''darwin_amd64'', DarwinAMD64 pcs),
      (''darwin_arm64'', DarwinARM64 pcs),
      (''windows_amd64'', WindowsAMD64 pcs)]"

definition msg_schema_version :: "int \<Rightarrow> string" where
  "msg_schema_version n =
     ''unexpected schema_version='' @ fmt_d n @ '' (expected '' @ fmt_d SchemaVersion_const @ '')''"

definition msg_version_key :: "string \<Rightarrow> string" where
  "msg_version_key ver =
     ''invalid version key '' @ [CHR 0x27] @ ver @ [CHR 0x27]
       @ '' (expected semantic version like 2.31.1)''"

definition msg_checksum :: "string \<Rightarrow> string \<Rightarrow> string" where
  "msg_checksum ver name =
     ''version '' @ ver @ '': invalid '' @ name @ '' checksum (must be 64 hex chars)''"

definition msg_no_checksums :: "string \<Rightarrow> string" where
  "msg_no_checksums ver = ''version '' @ ver @ '': no platform checksums provided''"

text \<open>
  The body of the inner loop, on the pair \<open>(errs, atLeastOne)\<close>: a field that is empty
  after \<open>TrimSpace\<close> is skipped by \<open>continue\<close>.
\<close>

fun check_pair :: "string \<Rightarrow> string list \<times> bool \<Rightarrow> string \<times> string \<Rightarrow> string list \<times> bool" where
  "check_pair ver (errs, atLeastOne) (name, val) =
     (if TrimSpace val = [] then (errs, atLeastOne)
      else (if \<not> hexSHA256 val then errs @ [msg_checksum ver name] else errs, True))"

text \<open>The body of the outer loop, on \<open>errs\<close>.\<close>

fun check_version :: "string list \<Rightarrow> string \<times> PlatformChecksums \<Rightarrow> string list" where
  "check_version errs (ver, pcs) =
     (let norm = NormalizeVersion ver;
          errs1 = (if \<not> semverLike norm then errs @ [msg_version_key ver] else errs);
          (errs2, atLeastOne) = foldl (check_pair ver) (errs1, False) (checkPairs pcs)
      in if \<not> atLeastOne then errs2 @ [msg_no_checksums ver] else errs2)"

definition Validate_errs :: "VersionsDB \<Rightarrow> string list" where
  "Validate_errs db =
     (let errs = (if SchemaVersion db \<noteq> SchemaVersion_const
                  then [msg_schema_version (SchemaVersion db)] else [])
      in if map_len (Versions db) = 0 then errs @ [''versions map is empty'']
         else foldl check_version errs (map_range (Versions db)))"

definition Validate :: "VersionsDB \<Rightarrow> error option" where
  "Validate db =
     (let errs = Validate_errs db
      in if length errs > 0 then Some (ValidationError errs) else None)"

subsection \<open>ExtendDB\<close>

text \<open>
  The receiver is mutated in place: the function returns the registry as the call leaves
  it, with the error. The scratch registry \<open>tmp\<close> has the zero value in \<open>GeneratedAt\<close>.
\<close>

definition ExtendDB :: "VersionsDB \<Rightarrow> string \<Rightarrow> PlatformChecksums \<Rightarrow> VersionsDB \<times> error option" where
  "ExtendDB db version checksums =
     (let db1 = (if Versions db = None then db\<lparr>Versions := Some []\<rparr> else db);
          nv = NormalizeVersion version;
          tmp = \<lparr>SchemaVersion = SchemaVersion db1, GeneratedAt = [],
                 Versions = Some [(nv, checksums)]\<rparr>
      in case Validate tmp of
           Some err \<Rightarrow> (db1, Some err)
         | None \<Rightarrow>
             (db1\<lparr>Versions := Some (map_store (map_range (Versions db1)) nv checksums)\<rparr>, None))"

subsection \<open>The process and the file system\<close>

text \<open>
  What the code reads from its process: \<open>runtime.GOOS\<close>, the environment variables, the
  result of \<open>os.UserHomeDir\<close>, the two functions of package filepath (they depend on the
  platform), and \<open>startTime\<close>, the value of \<open>time.Now().UTC().Format(time.RFC3339)\<close> at the
  moment the package-level variable \<open>bundledVersionsYAML\<close> is initialised, once per
  process. An RFC 3339 time in UTC, such as \<open>2025-07-28T12:34:56Z\<close>, consists of printable
  ASCII characters.
\<close>

record process =
  GOOS :: string
  Getenv :: "string \<Rightarrow> string"
  UserHomeDir :: "error + string"
  filepath_Join :: "string list \<Rightarrow> string"
  filepath_Dir :: "string \<Rightarrow> string"
  startTime :: string

text \<open>
  The file system: the content of every regular file, the directories, and the failures the
  system reports besides the ones that follow from this state (a permission or an I/O
  error, by call and path; never \<open>ENOENT\<close>, which \<open>os.Stat\<close> reports exactly for a path that is
  neither a file nor a directory). A call that fails leaves the state as it was; only the
  directory passed to \<open>os.MkdirAll\<close> is recorded, not its ancestors.
\<close>

datatype syscall = Stat | MkdirAll | WriteFile | ReadFile

record filesystem =
  files :: "string \<rightharpoonup> string"
  dirs :: "string set"
  fault :: "syscall \<Rightarrow> string \<Rightarrow> string option"

definition os_Stat :: "filesystem \<Rightarrow> string \<Rightarrow> error option" where
  "os_Stat fs path =
     (case fault fs Stat path of
        Some msg \<Rightarrow> Some (PathError ''stat'' path (Errno msg))
      | None \<Rightarrow>
          if path \<in> dom (files fs) \<or> path \<in> dirs fs then None
          else Some (PathError ''stat'' path ENOENT))"

definition os_MkdirAll :: "filesystem \<Rightarrow> string \<Rightarrow> filesystem \<times> error option" where
  "os_MkdirAll fs dir =
     (case fault fs MkdirAll dir of
        Some msg \<Rightarrow> (fs, Some (PathError ''mkdir'' dir (Errno msg)))
      | None \<Rightarrow>
          if dir \<in> dom (files fs) then (fs, Some (PathError ''mkdir'' dir ENOTDIR))
          else (fs\<lparr>dirs := insert dir (dirs fs)\<rparr>, None))"

definition os_WriteFile :: "filesystem \<Rightarrow> string \<Rightarrow> string \<Rightarrow> filesystem \<times> error option" where
  "os_WriteFile fs path content =
     (case fault fs WriteFile path of
        Some msg \<Rightarrow> (fs, Some (PathError ''open'' path (Errno msg)))
      | None \<Rightarrow>
          if path \<in> dirs fs then (fs, Some (PathError ''open'' path EISDIR))
          else (fs\<lparr>files := (files fs)(path \<mapsto> content)\<rparr>, None))"

definition os_ReadFile :: "filesystem \<Rightarrow> string \<Rightarrow> error + string" where
  "os_ReadFile fs path =
     (case fault fs ReadFile path of
        Some msg \<Rightarrow> Inl (PathError ''open'' path (Errno msg))
      | None \<Rightarrow>
          (case files fs path of
             Some content \<Rightarrow> Inr content
           | None \<Rightarrow>
               if path \<in> dirs fs then Inl (PathError ''read'' path EISDIR)
               else Inl (PathError ''open'' path ENOENT)))"

subsection \<open>The loader\<close>

text \<open>
  \<open>yaml.Unmarshal\<close> into a fresh \<open>VersionsDB\<close> is a function of the bytes: an error of the
  library, or the decoded registry. It is a parameter of the loader and of the bootstrap.
\<close>

type_synonym unmarshal = "string \<Rightarrow> error + VersionsDB"

definition loadDBFromPath :: "unmarshal \<Rightarrow> filesystem \<Rightarrow> string \<Rightarrow> error + VersionsDB" where
  "loadDBFromPath yaml fs path =
     (case os_ReadFile fs path of
        Inl err \<Rightarrow> Inl (Errorf_w (''failed to read versions DB at '' @ path) err)
      | Inr content \<Rightarrow>
          (case yaml content of
             Inl err \<Rightarrow> Inl (Errorf_w (''failed to parse YAML versions DB at '' @ path) err)
           | Inr db \<Rightarrow>
               (case Validate db of
                  Some err \<Rightarrow> Inl err
                | None \<Rightarrow> Inr db)))"

subsection \<open>The default path\<close>

definition defaultSubdir :: "process \<Rightarrow> string" where
  "defaultSubdir env = filepath_Join env [''1password-secrets'', ''action'']"

definition DefaultConfigDir :: "process \<Rightarrow> error + string" where
  "DefaultConfigDir env =
     (if GOOS env = windowsOS then
        (if TrimSpace (Getenv env ''APPDATA'') \<noteq> [] then Inr (Getenv env ''APPDATA'')
         else case UserHomeDir env of
                Inr home \<Rightarrow> Inr (filepath_Join env [home, ''AppData'', ''Roaming''])
              | Inl err \<Rightarrow>
                  Inl (ErrorString ''unable to determine APPDATA or user home directory''))
      else if TrimSpace (Getenv env ''XDG_CONFIG_HOME'') \<noteq> [] then
        Inr (Getenv env ''XDG_CONFIG_HOME'')
      else case UserHomeDir env of
             Inr home \<Rightarrow> Inr (filepath_Join env [home, ''.config''])
           | Inl err \<Rightarrow>
               Inl (ErrorString
                 ''unable to determine config directory (XDG_CONFIG_HOME or home)''))"

definition DefaultDBPath :: "process \<Rightarrow> error + string" where
  "DefaultDBPath env =
     (case DefaultConfigDir env of
        Inl err \<Rightarrow> Inl err
      | Inr cfgRoot \<Rightarrow>
          Inr (filepath_Join env [cfgRoot, defaultSubdir env, defaultVersionsFilename]))"

subsection \<open>The bundled document and the bootstrap\<close>

text \<open>
  The verb \<open>%q\<close> on a string is \<open>strconv.Quote\<close>: between double quotes, a double quote and a
  backslash are escaped with a backslash and every other printable ASCII character stands
  for itself. The argument here is \<open>startTime\<close>, which has no other characters.
\<close>

definition dquote :: char where "dquote = CHR 0x22"
definition backslash :: char where "backslash = CHR 0x5C"
definition newline :: char where "newline = CHR 0x0A"

definition escape :: "char \<Rightarrow> string" where
  "escape c = (if c = dquote \<or> c = backslash then [backslash, c] else [c])"

definition fmt_q :: "string \<Rightarrow> string" where
  "fmt_q s = dquote # concat (map escape s) @ [dquote]"

text \<open>A line of the raw string literal: \<open>indent\<close> spaces, \<open>key: "value"\<close>, a newline.\<close>

definition quoted_line :: "nat \<Rightarrow> string \<Rightarrow> string \<Rightarrow> string" where
  "quoted_line indent key val =
     replicate indent (CHR '' '') @ key @ '': '' @ [dquote] @ val @ [dquote, newline]"

definition bundledVersionsYAML :: "process \<Rightarrow> string" where
  "bundledVersionsYAML env =
     TrimSpace
       ([newline]
        @ ''schema_version: '' @ fmt_d SchemaVersion_const @ [newline]
        @ ''generated_at: '' @ fmt_q (startTime env) @ [newline]
        @ ''versions:'' @ [newline]
        @ ''  '' @ [dquote] @ ''2.31.1'' @ [dquote] @ '':'' @ [newline]
        @ quoted_line 4 ''linux_amd64''
            ''0fd8da9c6b6301781f50ef57cebbfd7d42d072777bcb4649ef5b6d360629b876''
        @ quoted_line 4 ''linux_arm64''
            ''47bcd4dbeacefcd01ae8c913e61721ae71ac4f6a0b9150f48467ff719d494ff7''
        @ quoted_line 4 ''darwin_amd64''
            ''019f37e33a6d4f7824cda14eee5e24c2947d58d94ed7dd3b3fc3cbcd644647df''
        @ quoted_line 4 ''darwin_arm64''
            ''71d38ddee25d34a9159b81d8c16844c3869defd7cc1563cc8f216a20439ceba4''
        @ quoted_line 4 ''windows_amd64''
            ''9e54520aa136ecd6bc7082ec719b68f00bd23cb575c6e787d62f34cc44895bbb'')"

definition WriteBundledDBIfMissing ::
    "unmarshal \<Rightarrow> process \<Rightarrow> filesystem \<Rightarrow> filesystem \<times> error option" where
  "WriteBundledDBIfMissing yaml env fs =
     (case DefaultDBPath env of
        Inl err \<Rightarrow> (fs, Some err)
      | Inr path \<Rightarrow>
          (case os_Stat fs path of
             None \<Rightarrow> (fs, None)
           | Some err \<Rightarrow>
               if \<not> IsNotExist err then (fs, Some err)
               else
                 (let dir = filepath_Dir env path in
                  case os_MkdirAll fs dir of
                    (fs1, Some mkErr) \<Rightarrow>
                      (fs1, Some (Errorf_w (''failed to create config directory '' @ dir) mkErr))
                  | (fs1, None) \<Rightarrow>
                      (case yaml (bundledVersionsYAML env) of
                         Inl err \<Rightarrow>
                           (fs1, Some (Errorf_w ''bundled versions DB is invalid YAML'' err))
                       | Inr db \<Rightarrow>
                           (case Validate db of
                              Some err \<Rightarrow>
                                (fs1, Some (Errorf_w ''bundled versions DB failed validation'' err))
                            | None \<Rightarrow>
                                (case os_WriteFile fs1 path (bundledVersionsYAML env) of
                                   (fs2, Some writeErr) \<Rightarrow>
                                     (fs2, Some (Errorf_w
                                        (''failed to write versions DB to '' @ path) writeErr))
                                 | (fs2, None) \<Rightarrow> (fs2, None)))))))"

section \<open>The specification's vocabulary\<close>

subsection \<open>The platform matrix\<close>

text \<open>
  The supported pairs as the specification writes them: \<open>{linux,darwin} \<times> {amd64,arm64}\<close>
  plus \<open>{windows} \<times> {amd64}\<close>. \<open>resolves\<close> holds of the pairs on which the resolver succeeds.
\<close>

definition supported_platforms :: "(string \<times> string) list" where
  "supported_platforms =
     List.product [linuxOS, darwinOS] [amd64Architecture, arm64Architecture]
       @ List.product [windowsOS] [amd64Architecture]"

definition resolves :: "string \<times> string \<Rightarrow> bool" where
  "resolves p = (\<not> isl (ComputePlatformKey (fst p) (snd p)))"

subsection \<open>The violations of a registry document\<close>

text \<open>
  The five invariants of the data model, each with the violations a document can have of
  it: a wrong \<open>schema_version\<close>; an empty \<open>versions\<close> map; a version key that does not match
  after normalization; a populated checksum field that is not 64 lowercase hexadecimal
  characters; an entry with no populated checksum field. Two words of the invariants have
  two readings, which are parameters here. \<open>norm\<close> is the normalization of a version
  key: \<open>strip_v\<close> is the specification's wording, stripping an optional leading v and nothing
  else; \<open>NormalizeVersion\<close> trims white space first. \<open>populated\<close> says when a checksum field
  counts as populated: \<open>nonempty\<close> reads the specification's "non-empty" literally,
  \<open>nonblank\<close> means not empty after trimming white space.
\<close>

datatype violation =
    WrongSchemaVersion int
  | EmptyVersions
  | MalformedVersionKey string
  | MalformedChecksum string string
  | NoChecksums string

definition strip_v :: "string \<Rightarrow> string" where
  "strip_v ver = TrimPrefix ver ''v''"

definition nonempty :: "string \<Rightarrow> bool" where
  "nonempty val = (val \<noteq> [])"

definition nonblank :: "string \<Rightarrow> bool" where
  "nonblank val = (TrimSpace val \<noteq> [])"

definition key_violations ::
    "(string \<Rightarrow> string) \<Rightarrow> string \<times> PlatformChecksums \<Rightarrow> violation list" where
  "key_violations norm e =
     (if semverLike (norm (fst e)) then [] else [MalformedVersionKey (fst e)])"

definition checksum_violations ::
    "(string \<Rightarrow> bool) \<Rightarrow> string \<times> PlatformChecksums \<Rightarrow> violation list" where
  "checksum_violations populated e =
     map (\<lambda>field. MalformedChecksum (fst e) (fst field))
       (filter (\<lambda>field. populated (snd field) \<and> \<not> hexSHA256 (snd field)) (checkPairs (snd e)))"

definition missing_violations ::
    "(string \<Rightarrow> bool) \<Rightarrow> string \<times> PlatformChecksums \<Rightarrow> violation list" where
  "missing_violations populated e =
     (if list_ex (\<lambda>field. populated (snd field)) (checkPairs (snd e)) then []
      else [NoChecksums (fst e)])"

definition violations ::
    "(string \<Rightarrow> string) \<Rightarrow> (string \<Rightarrow> bool) \<Rightarrow> VersionsDB \<Rightarrow> violation list" where
  "violations norm populated db =
     (let entries = map_range (Versions db) in
      (if SchemaVersion db = SchemaVersion_const then []
       else [WrongSchemaVersion (SchemaVersion db)])
      @ (if entries = [] then [EmptyVersions] else [])
      @ concat (map (key_violations norm) entries)
      @ concat (map (checksum_violations populated) entries)
      @ concat (map (missing_violations populated) entries))"

text \<open>The violations of one entry, in the order in which the validator meets them.\<close>

definition entry_violations :: "string \<times> PlatformChecksums \<Rightarrow> violation list" where
  "entry_violations e =
     key_violations NormalizeVersion e @ checksum_violations nonblank e
       @ missing_violations nonblank e"

text \<open>The entry of the aggregate error's list that reports a violation.\<close>

fun report :: "violation \<Rightarrow> string" where
  "report (WrongSchemaVersion n) = msg_schema_version n"
| "report EmptyVersions = ''versions map is empty''"
| "report (MalformedVersionKey ver) = msg_version_key ver"
| "report (MalformedChecksum ver name) = msg_checksum ver name"
| "report (NoChecksums ver) = msg_no_checksums ver"

subsection \<open>The scratch registry of an extension\<close>

text \<open>
  The single-entry registry that \<open>ExtendDB\<close> validates: the schema version of the live
  registry and the new entry under its normalized version.
\<close>

definition scratch_registry :: "VersionsDB \<Rightarrow> string \<Rightarrow> PlatformChecksums \<Rightarrow> VersionsDB" where
  "scratch_registry db version checksums =
     \<lparr>SchemaVersion = SchemaVersion db, GeneratedAt = [],
      Versions = Some [(NormalizeVersion version, checksums)]\<rparr>"

text \<open>A character that starts and ends no white space sequence: a digit or the letter v.\<close>

definition plain :: "char \<Rightarrow> bool" where
  "plain c = (is_digit c \<or> c = CHR ''v'')"

subsection \<open>The bootstrap's vocabulary\<close>

text \<open>
  The bundled document is rejected when it does not parse or the parsed registry does not
  validate. A path is missing when \<open>os.Stat\<close> reports that it does not exist.
  \<open>install_bundled\<close> names the steps of \<open>WriteBundledDBIfMissing\<close> that follow the creation
  of the directory: parse, validate, write.
\<close>

definition bundled_rejected :: "unmarshal \<Rightarrow> process \<Rightarrow> bool" where
  "bundled_rejected yaml env =
     (case yaml (bundledVersionsYAML env) of
        Inl err \<Rightarrow> True
      | Inr db \<Rightarrow> Validate db \<noteq> None)"

definition missing :: "filesystem \<Rightarrow> string \<Rightarrow> bool" where
  "missing fs path =
     (fault fs Stat path = None \<and> path \<notin> dom (files fs) \<and> path \<notin> dirs fs)"

definition install_bundled ::
    "unmarshal \<Rightarrow> process \<Rightarrow> filesystem \<Rightarrow> string \<Rightarrow> filesystem \<times> error option" where
  "install_bundled yaml env fs1 path =
     (case yaml (bundledVersionsYAML env) of
        Inl err \<Rightarrow> (fs1, Some (Errorf_w ''bundled versions DB is invalid YAML'' err))
      | Inr db \<Rightarrow>
          (case Validate db of
             Some err \<Rightarrow> (fs1, Some (Errorf_w ''bundled versions DB failed validation'' err))
           | None \<Rightarrow>
               (case os_WriteFile fs1 path (bundledVersionsYAML env) of
                  (fs2, Some writeErr) \<Rightarrow>
                    (fs2, Some (Errorf_w (''failed to write versions DB to '' @ path) writeErr))
                | (fs2, None) \<Rightarrow> (fs2, None))))"

text \<open>
  The bundled document around its time stamp: after the first letter, what precedes the
  quoted time stamp and what follows it up to the last double quote.
\<close>

definition bundled_head :: string where
  "bundled_head = ''chema_version: 1'' @ [newline] @ ''generated_at: ''"

definition bundled_tail :: string where
  "bundled_tail =
     [newline] @ ''versions:'' @ [newline]
     @ ''  '' @ [dquote] @ ''2.31.1'' @ [dquote] @ '':'' @ [newline]
     @ quoted_line 4 ''linux_amd64''
         ''0fd8da9c6b6301781f50ef57cebbfd7d42d072777bcb4649ef5b6d360629b876''
     @ quoted_line 4 ''linux_arm64''
         ''47bcd4dbeacefcd01ae8c913e61721ae71ac4f6a0b9150f48467ff719d494ff7''
     @ quoted_line 4 ''darwin_amd64''
         ''019f37e33a6d4f7824cda14eee5e24c2947d58d94ed7dd3b3fc3cbcd644647df''
     @ quoted_line 4 ''darwin_arm64''
         ''71d38ddee25d34a9159b81d8c16844c3869defd7cc1563cc8f216a20439ceba4''
     @ ''    windows_amd64: '' @ [dquote]
     @ ''9e54520aa136ecd6bc7082ec719b68f00bd23cb575c6e787d62f34cc44895bbb''"

subsection \<open>Sample values\<close>

definition sha_linux_amd64 :: string where
  "sha_linux_amd64 = ''0fd8da9c6b6301781f50ef57cebbfd7d42d072777bcb4649ef5b6d360629b876''"

definition no_checksums :: PlatformChecksums where
  "no_checksums =
     \<lparr>LinuxAMD64 = [], LinuxARM64 = [], DarwinAMD64 = [], DarwinARM64 = [],
      WindowsAMD64 = []\<rparr>"

text \<open>A registry with the single key \<open>ver\<close>, whose entry has \<open>linux_amd64\<close> only.\<close>

definition single_version :: "string \<Rightarrow> VersionsDB" where
  "single_version ver =
     \<lparr>SchemaVersion = 1, GeneratedAt = [],
      Versions = Some [(ver, no_checksums\<lparr>LinuxAMD64 := sha_linux_amd64\<rparr>)]\<rparr>"

text \<open>A valid \<open>linux_amd64\<close> digest beside a \<open>linux_arm64\<close> field of one space.\<close>

definition blank_field_registry :: VersionsDB where
  "blank_field_registry =
     \<lparr>SchemaVersion = 1, GeneratedAt = [],
      Versions = Some [(''1.0.0'',
        no_checksums\<lparr>LinuxAMD64 := sha_linux_amd64, LinuxARM64 := '' ''\<rparr>)]\<rparr>"

text \<open>A valid entry whose key is written with a leading space.\<close>

definition padded_key_registry :: VersionsDB where
  "padded_key_registry = single_version '' 2.31.1''"

text \<open>Four violations: the schema version, a key, a checksum, an entry without checksums.\<close>

definition faulty_registry :: VersionsDB where
  "faulty_registry =
     \<lparr>SchemaVersion = 2, GeneratedAt = [],
      Versions = Some [(''2.31'', no_checksums\<lparr>LinuxAMD64 := ''xyz''\<rparr>),
                       (''9.9.9'', no_checksums)]\<rparr>"

definition linux_only :: PlatformChecksums where
  "linux_only = no_checksums\<lparr>LinuxAMD64 := sha_linux_amd64\<rparr>"

definition one_bad_checksum :: PlatformChecksums where
  "one_bad_checksum = no_checksums\<lparr>LinuxAMD64 := sha_linux_amd64, DarwinARM64 := ''xyz''\<rparr>"

definition nil_registry :: VersionsDB where
  "nil_registry = \<lparr>SchemaVersion = 1, GeneratedAt = [], Versions = None\<rparr>"

text \<open>
  A Unix process without environment variables, with its home directory and start time;
  a file system without files, directories and faults; decoders that return a fixed
  registry, or fail, whatever the bytes.
\<close>

definition unix_process :: "string \<Rightarrow> string \<Rightarrow> process" where
  "unix_process home now =
     \<lparr>GOOS = ''linux'', Getenv = (\<lambda>name. []), UserHomeDir = Inr home,
      filepath_Join = (\<lambda>elems. Join elems ''/''),
      filepath_Dir = (\<lambda>path. rev (tl (dropWhile (\<lambda>c. c \<noteq> CHR ''/'') (rev path)))),
      startTime = now\<rparr>"

definition sample_process :: process where
  "sample_process = unix_process ''/home/u'' ''2025-07-28T12:00:00Z''"

definition later_process :: process where
  "later_process = unix_process ''/home/u'' ''2025-07-28T12:00:01Z''"

definition other_home_process :: process where
  "other_home_process = unix_process ''/home/w'' ''2025-07-28T12:00:00Z''"

definition sample_path :: string where
  "sample_path = ''/home/u/.config/1password-secrets/action/1password-cli-versions.yaml''"

definition other_home_path :: string where
  "other_home_path = ''/home/w/.config/1password-secrets/action/1password-cli-versions.yaml''"

definition empty_filesystem :: filesystem where
  "empty_filesystem = \<lparr>files = Map.empty, dirs = {}, fault = (\<lambda>call path. None)\<rparr>"

definition user_filesystem :: filesystem where
  "user_filesystem = empty_filesystem\<lparr>files := [sample_path \<mapsto> ''schema_version: 2'']\<rparr>"

definition decode_to :: "VersionsDB \<Rightarrow> unmarshal" where
  "decode_to db content = Inr db"

definition decode_error :: unmarshal where
  "decode_error content = Inl (YAMLError ''yaml: did not find expected key'')"

text \<open>What the document \<open>schema_version: 2\<close> decodes to.\<close>

definition schema2_registry :: VersionsDB where
  "schema2_registry = \<lparr>SchemaVersion = 2, GeneratedAt = [], Versions = None\<rparr>"

section \<open>Properties\<close>

subsection \<open>The platform key resolver\<close>

lemmas platform_names =
  linuxOS_def darwinOS_def windowsOS_def amd64Architecture_def arm64Architecture_def

lemma ComputePlatformKey_supported:
  "(\<not> isl (ComputePlatformKey goos goarch)) = ((goos, goarch) \<in> set supported_platforms)"
  by (auto simp: ComputePlatformKey_def supported_platforms_def platform_names Let_def)

lemma ComputePlatformKey_unsupported:
  "(goos, goarch) \<notin> set supported_platforms \<Longrightarrow>
     ComputePlatformKey goos goarch =
       Inl (ErrorString (''unsupported platform: '' @ goos @ ''_'' @ goarch))"
  by (auto simp: ComputePlatformKey_def supported_platforms_def platform_names Let_def)

lemma supported_platforms_five:
  "distinct supported_platforms \<and> length supported_platforms = 5"
  by (simp add: supported_platforms_def platform_names)

lemma resolves_set: "Collect resolves = set supported_platforms"
  by (auto simp: resolves_def ComputePlatformKey_supported)

lemma card_resolves: "card (Collect resolves) = 5"
  using supported_platforms_five by (simp add: resolves_set distinct_card)

text \<open>
  Claim C1, as amended. \<open>ComputePlatformKey\<close> succeeds exactly on the supported pairs, of
  which there are five (linux and darwin on amd64 and arm64, windows on amd64); on every
  other pair it fails with the error \<open>unsupported platform: os_arch\<close>, which carries both
  raw identifiers.
\<close>

theorem ComputePlatformKey_closed_matrix:
  "(\<not> isl (ComputePlatformKey goos goarch)) = ((goos, goarch) \<in> set supported_platforms) \<and>
   ((goos, goarch) \<notin> set supported_platforms \<longrightarrow>
      ComputePlatformKey goos goarch =
        Inl (ErrorString (''unsupported platform: '' @ goos @ ''_'' @ goarch))) \<and>
   distinct supported_platforms \<and> length supported_platforms = 5"
  using ComputePlatformKey_supported ComputePlatformKey_unsupported supported_platforms_five
  by blast

theorem ComputePlatformKey_closed_matrix_witness:
  "(''windows'', ''arm64'') \<notin> set supported_platforms \<and>
   ComputePlatformKey ''windows'' ''arm64'' =
     Inl (ErrorString ''unsupported platform: windows_arm64'') \<and>
   (''darwin'', ''arm64'') \<in> set supported_platforms \<and>
   \<not> isl (ComputePlatformKey ''darwin'' ''arm64'')"
proof -
  have out: "(''windows'', ''arm64'') \<notin> set supported_platforms"
    by (simp add: supported_platforms_def platform_names)
  have inside: "(''darwin'', ''arm64'') \<in> set supported_platforms"
    by (simp add: supported_platforms_def platform_names)
  show ?thesis
    using out inside
      ComputePlatformKey_closed_matrix [of "''windows''" "''arm64''"]
      ComputePlatformKey_closed_matrix [of "''darwin''" "''arm64''"]
    by simp
qed

text \<open>
  The claim as stated counts six supported pairs. The resolver succeeds on five: the
  sixth pair of the full matrix, windows on arm64, is rejected.
\<close>

theorem ComputePlatformKey_six_pairs_counterexample:
  "card (Collect resolves) \<noteq> 6 \<and>
   ComputePlatformKey ''windows'' ''arm64'' =
     Inl (ErrorString ''unsupported platform: windows_arm64'')"
proof -
  have "(''windows'', ''arm64'') \<notin> set supported_platforms"
    by (simp add: supported_platforms_def platform_names)
  then show ?thesis
    using ComputePlatformKey_unsupported [of "''windows''" "''arm64''"]
    by (simp add: card_resolves)
qed

subsection \<open>Normalization\<close>

lemma stripLeading_id:
  assumes "\<forall>t \<in> set ts. t \<noteq> [] \<longrightarrow> hd t \<noteq> c"
  shows "stripLeading ts (c # cs) = c # cs"
proof -
  have "\<not> (t \<noteq> [] \<and> HasPrefix (c # cs) t)" if "t \<in> set ts" for t
    using assms that by (cases t) (auto simp: HasPrefix_def)
  then have "List.find (\<lambda>t. t \<noteq> [] \<and> HasPrefix (c # cs) t) ts = None"
    by (simp add: find_None_iff)
  then show ?thesis
    by (simp add: stripLeading.simps)
qed

lemma plain_not_first: "plain c \<Longrightarrow> \<forall>t \<in> set whiteSpace. t \<noteq> [] \<longrightarrow> hd t \<noteq> c"
  by (auto simp: plain_def is_digit_def whiteSpace_def)

lemma plain_not_last: "plain c \<Longrightarrow> \<forall>t \<in> set (map rev whiteSpace). t \<noteq> [] \<longrightarrow> hd t \<noteq> c"
  by (auto simp: plain_def is_digit_def whiteSpace_def)

lemma TrimSpace_plain:
  assumes "s \<noteq> []" "plain (hd s)" "plain (last s)"
  shows "TrimSpace s = s"
proof -
  obtain c cs where s: "s = c # cs" using assms(1) by (cases s) auto
  have 1: "stripLeading whiteSpace s = s"
    using assms(2) plain_not_first[of c] by (simp add: s stripLeading_id)
  obtain d ds where r: "rev s = d # ds" using assms(1) by (cases "rev s") auto
  have "d = last s" using r assms(1) by (metis hd_rev list.sel(1))
  then have 2: "stripLeading (map rev whiteSpace) (rev s) = rev s"
    using assms(3) plain_not_last[of d] by (simp add: r stripLeading_id)
  show ?thesis by (simp add: TrimSpace_def 1 2)
qed

lemma digits_then_dot_Some:
  "digits_then_dot s = Some r \<longleftrightarrow>
     (\<exists>a. s = a @ CHR ''.'' # r \<and> a \<noteq> [] \<and> list_all is_digit a)"
proof
  assume "digits_then_dot s = Some r"
  then have "dropWhile is_digit s = CHR ''.'' # r" and "takeWhile is_digit s \<noteq> []"
    by (auto simp: digits_then_dot_def split: list.splits if_splits)
  moreover have "s = takeWhile is_digit s @ dropWhile is_digit s" by simp
  moreover have "list_all is_digit (takeWhile is_digit s)"
    by (simp add: list_all_iff) (meson set_takeWhileD)
  ultimately show "\<exists>a. s = a @ CHR ''.'' # r \<and> a \<noteq> [] \<and> list_all is_digit a"
    by metis
next
  assume "\<exists>a. s = a @ CHR ''.'' # r \<and> a \<noteq> [] \<and> list_all is_digit a"
  then obtain a where a: "s = a @ CHR ''.'' # r" "a \<noteq> []" "list_all is_digit a" by blast
  have nd: "\<not> is_digit (CHR ''.'')" by (simp add: is_digit_def)
  have "takeWhile is_digit s = a" "dropWhile is_digit s = CHR ''.'' # r"
    using a nd by (simp_all add: list_all_iff takeWhile_append2 dropWhile_append2)
  then show "digits_then_dot s = Some r"
    using a by (simp add: digits_then_dot_def)
qed

text \<open>The matcher accepts the language of \<open>^\d+\.\d+\.\d+$\<close>.\<close>

lemma semverLike_iff:
  "semverLike s \<longleftrightarrow>
     (\<exists>a b c. s = a @ ''.'' @ b @ ''.'' @ c \<and> a \<noteq> [] \<and> b \<noteq> [] \<and> c \<noteq> [] \<and>
        list_all is_digit a \<and> list_all is_digit b \<and> list_all is_digit c)"
proof
  assume "semverLike s"
  then obtain r1 r2 where "digits_then_dot s = Some r1" "digits_then_dot r1 = Some r2"
      "r2 \<noteq> []" "list_all is_digit r2"
    by (auto simp: semverLike_def split: option.splits)
  then show "\<exists>a b c. s = a @ ''.'' @ b @ ''.'' @ c \<and> a \<noteq> [] \<and> b \<noteq> [] \<and> c \<noteq> [] \<and>
        list_all is_digit a \<and> list_all is_digit b \<and> list_all is_digit c"
    by (auto simp: digits_then_dot_Some)
next
  assume "\<exists>a b c. s = a @ ''.'' @ b @ ''.'' @ c \<and> a \<noteq> [] \<and> b \<noteq> [] \<and> c \<noteq> [] \<and>
        list_all is_digit a \<and> list_all is_digit b \<and> list_all is_digit c"
  then obtain a b c where abc: "s = a @ ''.'' @ b @ ''.'' @ c" "a \<noteq> []" "b \<noteq> []" "c \<noteq> []"
      "list_all is_digit a" "list_all is_digit b" "list_all is_digit c" by blast
  have 1: "digits_then_dot s = Some (b @ ''.'' @ c)"
    using abc by (auto simp: digits_then_dot_Some)
  have 2: "digits_then_dot (b @ ''.'' @ c) = Some c"
    using abc by (auto simp: digits_then_dot_Some)
  show "semverLike s"
    using 1 2 abc(4,7) by (simp add: semverLike_def)
qed

lemma semverLike_ends:
  assumes "semverLike s"
  shows "s \<noteq> [] \<and> is_digit (hd s) \<and> is_digit (last s)"
proof -
  obtain a b c where abc: "s = a @ ''.'' @ b @ ''.'' @ c" "a \<noteq> []" "c \<noteq> []"
      "list_all is_digit a" "list_all is_digit c"
    using assms by (auto simp: semverLike_iff)
  have "hd s = hd a" "last s = last c" using abc by simp_all
  moreover have "is_digit (hd a)" "is_digit (last c)"
    using abc by (simp_all add: list_all_iff)
  ultimately show ?thesis using abc by simp
qed

lemma NormalizeVersion_semver:
  assumes "semverLike v"
  shows "NormalizeVersion v = v" and "NormalizeVersion (CHR ''v'' # v) = v"
proof -
  have e: "v \<noteq> []" "is_digit (hd v)" "is_digit (last v)"
    using semverLike_ends[OF assms] by simp_all
  have "TrimSpace v = v"
    using e by (simp add: TrimSpace_plain plain_def)
  moreover have "\<not> HasPrefix v ''v''"
    using e by (cases v) (auto simp: HasPrefix_def is_digit_def)
  ultimately show "NormalizeVersion v = v"
    by (simp add: NormalizeVersion_def TrimPrefix_def)
  have "TrimSpace (CHR ''v'' # v) = CHR ''v'' # v"
    using e by (simp add: TrimSpace_plain plain_def)
  then show "NormalizeVersion (CHR ''v'' # v) = v"
    by (simp add: NormalizeVersion_def TrimPrefix_def HasPrefix_def)
qed

text \<open>
  Claim C2. For every registry (the \<open>nil\<close> one too), every platform key and every version
  \<open>v\<close> that matches \<open>\d+\.\d+\.\d+\<close>, \<open>GetExpectedSHA\<close> returns the same pair for \<open>"v"+v\<close> as
  for \<open>v\<close>.
\<close>

theorem GetExpectedSHA_v_prefix:
  "semverLike v \<Longrightarrow>
     GetExpectedSHA db (CHR ''v'' # v) platformKey = GetExpectedSHA db v platformKey"
  by (cases db) (simp_all add: GetExpectedSHA_def NormalizeVersion_semver)

theorem GetExpectedSHA_v_prefix_witness:
  "semverLike ''2.31.1'' \<and>
   GetExpectedSHA (Some (single_version ''2.31.1'')) ''v2.31.1'' ''linux_amd64''
     = GetExpectedSHA (Some (single_version ''2.31.1'')) ''2.31.1'' ''linux_amd64'' \<and>
   GetExpectedSHA (Some (single_version ''2.31.1'')) ''2.31.1'' ''linux_amd64''
     = (sha_linux_amd64, True)"
proof -
  have h: "semverLike ''2.31.1''"
    by code_simp
  have v: "GetExpectedSHA (Some (single_version ''2.31.1'')) ''2.31.1'' ''linux_amd64''
             = (sha_linux_amd64, True)"
    by code_simp
  show ?thesis
    by (intro conjI h v
          GetExpectedSHA_v_prefix [OF h, of "Some (single_version ''2.31.1'')" "''linux_amd64''"])
qed

text \<open>
  Claim C3, at the registry whose only key is written \<open>v2.31.1\<close>. The validator normalizes
  the key before matching and accepts the registry; the lookup normalizes the query only
  and reads the map at \<open>2.31.1\<close>, where there is no entry: the entry is found neither under
  \<open>2.31.1\<close> nor under \<open>v2.31.1\<close>. (\<open>ExtendDB\<close> stores an entry under its normalized key; the
  loader stores the keys as the document has them.)
\<close>

theorem v_prefixed_key_not_found:
  "Validate (single_version ''v2.31.1'') = None \<and>
   GetExpectedSHA (Some (single_version ''v2.31.1'')) ''2.31.1'' ''linux_amd64'' = ([], False) \<and>
   GetExpectedSHA (Some (single_version ''v2.31.1'')) ''v2.31.1'' ''linux_amd64'' = ([], False)"
  by code_simp

subsection \<open>The validator\<close>

lemma foldl_check_pair:
  "foldl (check_pair ver) (errs, f) ps =
     (errs @ map (\<lambda>field. msg_checksum ver (fst field))
               (filter (\<lambda>field. nonblank (snd field) \<and> \<not> hexSHA256 (snd field)) ps),
      f \<or> list_ex (\<lambda>field. nonblank (snd field)) ps)"
proof (induction ps arbitrary: errs f)
  case Nil
  show ?case by simp
next
  case (Cons p ps)
  obtain name val where p: "p = (name, val)" by (cases p)
  have b: "nonblank val \<longleftrightarrow> TrimSpace val \<noteq> []" by (simp add: nonblank_def)
  show ?case
  proof (cases "TrimSpace val = []")
    case True
    then show ?thesis using b by (simp add: p Cons.IH)
  next
    case False
    then show ?thesis using b by (cases "hexSHA256 val") (simp_all add: p Cons.IH)
  qed
qed

lemma check_version_reports:
  "check_version errs e = errs @ map report (entry_violations e)"
  by (cases e)
     (simp add: entry_violations_def key_violations_def checksum_violations_def
        missing_violations_def foldl_check_pair comp_def)

lemma foldl_check_version:
  "foldl check_version errs es = errs @ map report (concat (map entry_violations es))"
  by (induction es arbitrary: errs) (simp_all add: check_version_reports)

lemma mset_entry_violations:
  "mset (concat (map entry_violations es)) =
     mset (concat (map (key_violations NormalizeVersion) es))
     + mset (concat (map (checksum_violations nonblank) es))
     + mset (concat (map (missing_violations nonblank) es))"
  by (induction es) (simp_all add: entry_violations_def)

lemma mset_Validate_errs:
  "mset (Validate_errs db) = mset (map report (violations NormalizeVersion nonblank db))"
proof (cases "map_range (Versions db) = []")
  case True
  then have "map_len (Versions db) = 0"
    by (auto simp: map_len_def map_range_def split: option.splits)
  with True show ?thesis
    by (simp add: Validate_errs_def violations_def)
next
  case False
  then have "map_len (Versions db) \<noteq> 0"
    by (auto simp: map_len_def map_range_def split: option.splits)
  with False show ?thesis
    by (simp add: Validate_errs_def violations_def foldl_check_version mset_entry_violations
          Let_def)
qed

lemma stripLeading_Nil: "stripLeading ts [] = []"
proof -
  have "List.find (\<lambda>t. t \<noteq> [] \<and> HasPrefix [] t) ts = None"
    by (auto simp: find_None_iff HasPrefix_def)
  then show ?thesis
    by (simp add: stripLeading.simps)
qed

lemma TrimSpace_Nil: "TrimSpace [] = []"
  by (simp add: TrimSpace_def stripLeading_Nil)

text \<open>
  The readings give the same violations on a document that has no white space around a
  version key and no blank checksum field that is not empty.
\<close>

lemma violations_readings_agree:
  assumes "\<forall>e \<in> set (map_range (Versions db)). TrimSpace (fst e) = fst e"
    and "\<forall>e \<in> set (map_range (Versions db)).
             \<forall>field \<in> set (checkPairs (snd e)). nonempty (snd field) \<longrightarrow> nonblank (snd field)"
  shows "violations strip_v nonempty db = violations NormalizeVersion nonblank db"
proof -
  have nb: "nonblank val \<Longrightarrow> nonempty val" for val
    by (auto simp: nonblank_def nonempty_def TrimSpace_Nil)
  have eq: "nonempty (snd field) = nonblank (snd field)"
    if "e \<in> set (map_range (Versions db))" "field \<in> set (checkPairs (snd e))" for e field
    using assms(2) that nb by blast
  have k: "key_violations strip_v e = key_violations NormalizeVersion e"
    if "e \<in> set (map_range (Versions db))" for e
    using assms(1) that by (simp add: key_violations_def strip_v_def NormalizeVersion_def)
  have c: "checksum_violations nonempty e = checksum_violations nonblank e"
    if "e \<in> set (map_range (Versions db))" for e
    unfolding checksum_violations_def
    using eq[OF that] by (metis (mono_tags, lifting) filter_cong)
  have m: "missing_violations nonempty e = missing_violations nonblank e"
    if "e \<in> set (map_range (Versions db))" for e
    unfolding missing_violations_def list_ex_iff
    using eq[OF that] by auto
  have K: "map (key_violations strip_v) (map_range (Versions db))
          = map (key_violations NormalizeVersion) (map_range (Versions db))"
    by (rule map_cong[OF refl]) (rule k)
  have A: "map (checksum_violations nonempty) (map_range (Versions db))
          = map (checksum_violations nonblank) (map_range (Versions db))"
    by (rule map_cong[OF refl]) (rule c)
  have B: "map (missing_violations nonempty) (map_range (Versions db))
          = map (missing_violations nonblank) (map_range (Versions db))"
    by (rule map_cong[OF refl]) (rule m)
  show ?thesis
    by (simp add: violations_def Let_def K A B)
qed

text \<open>
  Claim C4, as amended. A version key is malformed when it does not match \<open>\d+\.\d+\.\d+\<close>
  after \<open>NormalizeVersion\<close>, that is, after trimming the white space around it and then
  stripping one leading v; a checksum field counts as populated when it is not blank, that
  is, not empty after trimming white space. With these readings \<open>Validate\<close> is exhaustive: a
  document without violations is accepted, and for a document with violations \<open>Validate\<close>
  returns one \<open>ValidationError\<close> whose list has exactly one entry for every violation (wrong
  schema version, empty versions map, malformed version key, malformed non-blank checksum
  field, entry without a non-blank checksum), whatever the order in which the map is
  visited.
\<close>

theorem Validate_exhaustive:
  "(violations NormalizeVersion nonblank db = [] \<longrightarrow> Validate db = None) \<and>
   (violations NormalizeVersion nonblank db \<noteq> [] \<longrightarrow>
      (\<exists>errs. Validate db = Some (ValidationError errs) \<and>
              mset errs = mset (map report (violations NormalizeVersion nonblank db))))"
proof -
  have "Validate_errs db = [] \<longleftrightarrow> violations NormalizeVersion nonblank db = []"
    using mset_Validate_errs[of db] by (metis map_is_Nil_conv mset_zero_iff)
  then show ?thesis
    using mset_Validate_errs[of db] by (auto simp: Validate_def)
qed

theorem Validate_exhaustive_witness:
  "violations NormalizeVersion nonblank faulty_registry =
     [WrongSchemaVersion 2, MalformedVersionKey ''2.31'',
      MalformedChecksum ''2.31'' ''linux_amd64'', NoChecksums ''9.9.9''] \<and>
   (\<exists>errs. Validate faulty_registry = Some (ValidationError errs) \<and>
           mset errs = mset (map report (violations NormalizeVersion nonblank faulty_registry))) \<and>
   violations NormalizeVersion nonblank (single_version ''2.31.1'') = [] \<and>
   Validate (single_version ''2.31.1'') = None"
proof -
  have four: "violations NormalizeVersion nonblank faulty_registry =
     [WrongSchemaVersion 2, MalformedVersionKey ''2.31'',
      MalformedChecksum ''2.31'' ''linux_amd64'', NoChecksums ''9.9.9'']"
    by code_simp
  have none: "violations NormalizeVersion nonblank (single_version ''2.31.1'') = []"
    by code_simp
  have some: "violations NormalizeVersion nonblank faulty_registry \<noteq> []"
    by (simp add: four)
  show ?thesis
    using four none some Validate_exhaustive [of faulty_registry]
      Validate_exhaustive [of "single_version ''2.31.1''"]
    by blast
qed

text \<open>
  The claim as stated speaks of non-empty checksum fields and of malformed version keys,
  which the data model decides after stripping an optional leading v. A field of one space
  is not empty and is not a digest, so under the claim's words \<open>blank_field_registry\<close> has
  one violation; the validator skips the field and accepts the document, and the lookup
  then reports the blank field as found. A key with a leading space does not match the
  pattern after stripping a leading v, so \<open>padded_key_registry\<close> has one violation too; the
  validator trims the key before matching and accepts the document.
\<close>

theorem Validate_blank_field_counterexample:
  "violations strip_v nonempty blank_field_registry
     = [MalformedChecksum ''1.0.0'' ''linux_arm64''] \<and>
   Validate blank_field_registry = None \<and>
   GetExpectedSHA (Some blank_field_registry) ''1.0.0'' ''linux_arm64'' = ('' '', True) \<and>
   violations strip_v nonempty padded_key_registry = [MalformedVersionKey '' 2.31.1''] \<and>
   Validate padded_key_registry = None"
  by code_simp

subsection \<open>The extension\<close>

lemma map_of_map_store: "map_of (map_store kvs k v) = (map_of kvs)(k \<mapsto> v)"
  by (induction kvs) auto

lemma keys_map_store: "fst ` set (map_store kvs k v) = insert k (fst ` set kvs)"
  by (simp add: map_of_map_store flip: dom_map_of_conv_image_fst)

lemma distinct_map_store:
  "distinct (map fst kvs) \<Longrightarrow> distinct (map fst (map_store kvs k v))"
proof (induction kvs)
  case Nil
  show ?case by simp
next
  case (Cons p kvs)
  obtain k' v' where p: "p = (k', v')" by (cases p)
  show ?case
  proof (cases "k' = k")
    case True
    then show ?thesis using Cons.prems by (simp add: p)
  next
    case False
    have "k' \<notin> set (map fst (map_store kvs k v))"
      using Cons.prems False by (simp add: p keys_map_store)
    then show ?thesis using Cons False by (simp add: p)
  qed
qed

lemma ExtendDB_rejected:
  assumes "Validate (scratch_registry db version checksums) = Some err"
  shows "ExtendDB db version checksums =
           ((if Versions db = None then db\<lparr>Versions := Some []\<rparr> else db), Some err)"
  using assms by (simp add: ExtendDB_def scratch_registry_def Let_def)

lemma ExtendDB_accepted:
  assumes "Validate (scratch_registry db version checksums) = None"
  shows "ExtendDB db version checksums =
           (db\<lparr>Versions := Some (map_store (map_range (Versions db))
                                   (NormalizeVersion version) checksums)\<rparr>, None)"
  using assms by (simp add: ExtendDB_def scratch_registry_def Let_def map_range_def)

text \<open>
  Claim C5, as amended. If validating the scratch registry fails, \<open>ExtendDB\<close> returns that
  validation error and leaves the schema version, \<open>generated_at\<close> and the entries of the
  map as they were; a registry whose map is not \<open>nil\<close> is returned unchanged, and a \<open>nil\<close>
  map has become an empty one. If it succeeds, \<open>ExtendDB\<close> returns no error, the entry at the
  normalized version is the new one, the lookup of every other key is unchanged, the keys
  are the old ones with the normalized version, and they stay distinct.
\<close>

theorem ExtendDB_atomic:
  "(Validate (scratch_registry db version checksums) \<noteq> None \<longrightarrow>
      snd (ExtendDB db version checksums) = Validate (scratch_registry db version checksums) \<and>
      SchemaVersion (fst (ExtendDB db version checksums)) = SchemaVersion db \<and>
      GeneratedAt (fst (ExtendDB db version checksums)) = GeneratedAt db \<and>
      map_range (Versions (fst (ExtendDB db version checksums))) = map_range (Versions db) \<and>
      (Versions db \<noteq> None \<longrightarrow> fst (ExtendDB db version checksums) = db) \<and>
      (Versions db = None \<longrightarrow>
         fst (ExtendDB db version checksums) = db\<lparr>Versions := Some []\<rparr>)) \<and>
   (Validate (scratch_registry db version checksums) = None \<longrightarrow>
      snd (ExtendDB db version checksums) = None \<and>
      SchemaVersion (fst (ExtendDB db version checksums)) = SchemaVersion db \<and>
      GeneratedAt (fst (ExtendDB db version checksums)) = GeneratedAt db \<and>
      map_index (Versions (fst (ExtendDB db version checksums))) (NormalizeVersion version)
        = Some checksums \<and>
      (\<forall>k. k \<noteq> NormalizeVersion version \<longrightarrow>
         map_index (Versions (fst (ExtendDB db version checksums))) k
           = map_index (Versions db) k) \<and>
      set (map fst (map_range (Versions (fst (ExtendDB db version checksums)))))
        = insert (NormalizeVersion version) (set (map fst (map_range (Versions db)))) \<and>
      (distinct (map fst (map_range (Versions db))) \<longrightarrow>
         distinct (map fst (map_range (Versions (fst (ExtendDB db version checksums)))))))"
proof (cases "Validate (scratch_registry db version checksums)")
  case None
  show ?thesis
    using None
    by (auto simp: ExtendDB_accepted[OF None] map_index_def map_range_def map_of_map_store
          keys_map_store distinct_map_store split: option.splits)
next
  case (Some err)
  show ?thesis
    using Some
    by (auto simp: ExtendDB_rejected[OF Some] map_range_def)
qed

theorem ExtendDB_atomic_witness:
  "Validate (scratch_registry (single_version ''2.31.1'') ''v3.0.0'' one_bad_checksum) \<noteq> None \<and>
   snd (ExtendDB (single_version ''2.31.1'') ''v3.0.0'' one_bad_checksum)
     = Validate (scratch_registry (single_version ''2.31.1'') ''v3.0.0'' one_bad_checksum) \<and>
   fst (ExtendDB (single_version ''2.31.1'') ''v3.0.0'' one_bad_checksum)
     = single_version ''2.31.1'' \<and>
   Validate (scratch_registry (single_version ''2.31.1'') ''v3.0.0'' linux_only) = None \<and>
   snd (ExtendDB (single_version ''2.31.1'') ''v3.0.0'' linux_only) = None \<and>
   map_index (Versions (fst (ExtendDB (single_version ''2.31.1'') ''v3.0.0'' linux_only)))
     ''3.0.0'' = Some linux_only \<and>
   map_index (Versions (fst (ExtendDB (single_version ''2.31.1'') ''v3.0.0'' linux_only)))
     ''2.31.1'' = map_index (Versions (single_version ''2.31.1'')) ''2.31.1''"
proof -
  have bad: "Validate (scratch_registry (single_version ''2.31.1'') ''v3.0.0'' one_bad_checksum)
               \<noteq> None"
    by code_simp
  have good: "Validate (scratch_registry (single_version ''2.31.1'') ''v3.0.0'' linux_only) = None"
    by code_simp
  have nv: "NormalizeVersion ''v3.0.0'' = ''3.0.0''"
    by code_simp
  have live: "Versions (single_version ''2.31.1'') \<noteq> None"
    by (simp add: single_version_def)
  show ?thesis
    using bad good live
      ExtendDB_atomic [of "single_version ''2.31.1''" "''v3.0.0''" one_bad_checksum]
      ExtendDB_atomic [of "single_version ''2.31.1''" "''v3.0.0''" linux_only]
    by (simp add: nv)
qed

text \<open>
  The claim as stated has the registry unchanged when validation fails. On a registry
  whose map is \<open>nil\<close> the first statement of \<open>ExtendDB\<close> replaces it by an empty map before
  the scratch registry is validated, and the failed call returns with that change made.
\<close>

theorem ExtendDB_nil_map_counterexample:
  "ExtendDB nil_registry ''v3.0.0'' no_checksums
     = (nil_registry\<lparr>Versions := Some []\<rparr>,
        Some (ValidationError [''version 3.0.0: no platform checksums provided''])) \<and>
   nil_registry\<lparr>Versions := Some []\<rparr> \<noteq> nil_registry"
  by code_simp

subsection \<open>The lookup\<close>

text \<open>
  Claim C10. \<open>GetExpectedSHA\<close> returns the pair of the empty string and \<open>false\<close> on the \<open>nil\<close>
  registry, for a version that is not a key of the map after normalization (in particular
  on a \<open>nil\<close> map), for a platform key that is none of the five field names, and for an entry
  whose field of that name is empty. The function is total: it has no other outcome than
  a pair.
\<close>

theorem GetExpectedSHA_not_found:
  "GetExpectedSHA None version platformKey = ([], False) \<and>
   (map_index (Versions db) (NormalizeVersion version) = None \<longrightarrow>
      GetExpectedSHA (Some db) version platformKey = ([], False)) \<and>
   (map_index (Versions db) (NormalizeVersion version) = Some pcs \<and>
    platformKey \<notin> set (map fst (checkPairs pcs)) \<longrightarrow>
      GetExpectedSHA (Some db) version platformKey = ([], False)) \<and>
   (map_index (Versions db) (NormalizeVersion version) = Some pcs \<and>
    map_of (checkPairs pcs) platformKey = Some [] \<longrightarrow>
      GetExpectedSHA (Some db) version platformKey = ([], False))"
  by (auto simp: GetExpectedSHA_def checkPairs_def Let_def split: if_splits)

theorem GetExpectedSHA_not_found_witness:
  "map_index (Versions (single_version ''2.31.1'')) (NormalizeVersion ''9.9.9'') = None \<and>
   GetExpectedSHA (Some (single_version ''2.31.1'')) ''9.9.9'' ''linux_amd64'' = ([], False) \<and>
   map_index (Versions (single_version ''2.31.1'')) (NormalizeVersion ''2.31.1'') = Some linux_only \<and>
   ''windows_arm64'' \<notin> set (map fst (checkPairs linux_only)) \<and>
   GetExpectedSHA (Some (single_version ''2.31.1'')) ''2.31.1'' ''windows_arm64'' = ([], False) \<and>
   map_of (checkPairs linux_only) ''darwin_arm64'' = Some [] \<and>
   GetExpectedSHA (Some (single_version ''2.31.1'')) ''2.31.1'' ''darwin_arm64'' = ([], False) \<and>
   GetExpectedSHA (Some nil_registry) ''2.31.1'' ''linux_amd64'' = ([], False)"
proof -
  have absent: "map_index (Versions (single_version ''2.31.1'')) (NormalizeVersion ''9.9.9'') = None"
    by code_simp
  have present: "map_index (Versions (single_version ''2.31.1'')) (NormalizeVersion ''2.31.1'')
                   = Some linux_only"
    by code_simp
  have key: "''windows_arm64'' \<notin> set (map fst (checkPairs linux_only))"
    by (simp add: checkPairs_def)
  have field: "map_of (checkPairs linux_only) ''darwin_arm64'' = Some []"
    by code_simp
  have nil: "map_index (Versions nil_registry) (NormalizeVersion ''2.31.1'') = None"
    by (simp add: nil_registry_def map_index_def)
  show ?thesis
    using absent present key field nil
      GetExpectedSHA_not_found [of "''9.9.9''" "''linux_amd64''" "single_version ''2.31.1''"]
      GetExpectedSHA_not_found [of "''2.31.1''" "''windows_arm64''" "single_version ''2.31.1''"
        linux_only]
      GetExpectedSHA_not_found [of "''2.31.1''" "''darwin_arm64''" "single_version ''2.31.1''"
        linux_only]
      GetExpectedSHA_not_found [of "''2.31.1''" "''linux_amd64''" nil_registry]
    by simp
qed

subsection \<open>The bootstrap\<close>

lemma os_Stat_None:
  "os_Stat fs p = None \<longleftrightarrow> fault fs Stat p = None \<and> (p \<in> dom (files fs) \<or> p \<in> dirs fs)"
  by (simp add: os_Stat_def split: option.splits)

lemma os_Stat_missing:
  "missing fs p \<longleftrightarrow> (\<exists>e. os_Stat fs p = Some e \<and> IsNotExist e)"
  by (cases "fault fs Stat p") (auto simp: os_Stat_def missing_def)

lemma os_Stat_trichotomy:
  "os_Stat fs p = None \<or> missing fs p \<or> (\<exists>e. os_Stat fs p = Some e \<and> \<not> IsNotExist e)"
  using os_Stat_missing by (cases "os_Stat fs p") auto

lemma bootstrap_no_path:
  "DefaultDBPath env = Inl e \<Longrightarrow> WriteBundledDBIfMissing yaml env fs = (fs, Some e)"
  by (simp add: WriteBundledDBIfMissing_def)

lemma bootstrap_exists:
  "DefaultDBPath env = Inr p \<Longrightarrow> os_Stat fs p = None \<Longrightarrow>
     WriteBundledDBIfMissing yaml env fs = (fs, None)"
  by (simp add: WriteBundledDBIfMissing_def)

lemma bootstrap_stat_error:
  "DefaultDBPath env = Inr p \<Longrightarrow> os_Stat fs p = Some e \<Longrightarrow> \<not> IsNotExist e \<Longrightarrow>
     WriteBundledDBIfMissing yaml env fs = (fs, Some e)"
  by (simp add: WriteBundledDBIfMissing_def)

lemma bootstrap_mkdir_error:
  assumes "DefaultDBPath env = Inr p" "missing fs p"
    and "os_MkdirAll fs (filepath_Dir env p) = (fs1, Some e)"
  shows "WriteBundledDBIfMissing yaml env fs =
           (fs, Some (Errorf_w (''failed to create config directory '' @ filepath_Dir env p) e))"
proof -
  obtain se where se: "os_Stat fs p = Some se" "IsNotExist se"
    using assms(2) os_Stat_missing by blast
  have "fs1 = fs"
    using assms(3) by (auto simp: os_MkdirAll_def split: option.splits if_splits)
  then show ?thesis
    using assms(1,3) se by (simp add: WriteBundledDBIfMissing_def Let_def)
qed

lemma bootstrap_install:
  assumes "DefaultDBPath env = Inr p" "missing fs p"
    and "os_MkdirAll fs (filepath_Dir env p) = (fs1, None)"
  shows "WriteBundledDBIfMissing yaml env fs = install_bundled yaml env fs1 p"
proof -
  obtain se where se: "os_Stat fs p = Some se" "IsNotExist se"
    using assms(2) os_Stat_missing by blast
  show ?thesis
    using assms(1,3) se
    by (simp add: WriteBundledDBIfMissing_def install_bundled_def Let_def)
qed

lemma os_MkdirAll_ok:
  "os_MkdirAll fs d = (fs1, None) \<longleftrightarrow>
     fault fs MkdirAll d = None \<and> d \<notin> dom (files fs) \<and> fs1 = fs\<lparr>dirs := insert d (dirs fs)\<rparr>"
  by (cases "fault fs MkdirAll d") (auto simp: os_MkdirAll_def)

lemma os_WriteFile_cases:
  "(\<exists>e. os_WriteFile fs p c = (fs, Some e)) \<or>
   (fault fs WriteFile p = None \<and> p \<notin> dirs fs \<and>
    os_WriteFile fs p c = (fs\<lparr>files := (files fs)(p \<mapsto> c)\<rparr>, None))"
  by (cases "fault fs WriteFile p") (auto simp: os_WriteFile_def)

lemma install_cases:
  "(\<exists>e. install_bundled yaml env fs1 p = (fs1, Some e)) \<or>
   (\<exists>db. yaml (bundledVersionsYAML env) = Inr db \<and> Validate db = None \<and>
      fault fs1 WriteFile p = None \<and> p \<notin> dirs fs1 \<and>
      install_bundled yaml env fs1 p =
        (fs1\<lparr>files := (files fs1)(p \<mapsto> bundledVersionsYAML env)\<rparr>, None))"
proof (cases "yaml (bundledVersionsYAML env)")
  case (Inl e)
  then show ?thesis by (simp add: install_bundled_def)
next
  case (Inr db)
  show ?thesis
  proof (cases "Validate db")
    case (Some e)
    then show ?thesis using Inr by (simp add: install_bundled_def)
  next
    case None
    from os_WriteFile_cases[of fs1 p "bundledVersionsYAML env"] show ?thesis
    proof
      assume "\<exists>e. os_WriteFile fs1 p (bundledVersionsYAML env) = (fs1, Some e)"
      then show ?thesis using Inr None by (auto simp: install_bundled_def)
    next
      assume "fault fs1 WriteFile p = None \<and> p \<notin> dirs fs1 \<and>
        os_WriteFile fs1 p (bundledVersionsYAML env) =
          (fs1\<lparr>files := (files fs1)(p \<mapsto> bundledVersionsYAML env)\<rparr>, None)"
      then show ?thesis using Inr None by (simp add: install_bundled_def)
    qed
  qed
qed

lemma install_rejected:
  "bundled_rejected yaml env \<Longrightarrow> \<exists>e. install_bundled yaml env fs1 p = (fs1, Some e)"
  by (cases "yaml (bundledVersionsYAML env)")
     (auto simp: bundled_rejected_def install_bundled_def)

text \<open>Every outcome of the bootstrap, by what it leaves and returns.\<close>

lemma bootstrap_outcomes:
  "(\<exists>r. WriteBundledDBIfMissing yaml env fs = (fs, r) \<and>
        (r = None \<longrightarrow> (\<exists>p. DefaultDBPath env = Inr p \<and> os_Stat fs p = None))) \<or>
   (\<exists>p. DefaultDBPath env = Inr p \<and> missing fs p \<and>
        fault fs MkdirAll (filepath_Dir env p) = None \<and>
        filepath_Dir env p \<notin> dom (files fs) \<and>
        WriteBundledDBIfMissing yaml env fs =
          install_bundled yaml env (fs\<lparr>dirs := insert (filepath_Dir env p) (dirs fs)\<rparr>) p)"
proof (cases "DefaultDBPath env")
  case (Inl e)
  then show ?thesis by (simp add: bootstrap_no_path)
next
  case (Inr p)
  from os_Stat_trichotomy[of fs p] show ?thesis
  proof (elim disjE exE conjE)
    assume "os_Stat fs p = None"
    then show ?thesis using Inr by (simp add: bootstrap_exists)
  next
    fix e assume "os_Stat fs p = Some e" "\<not> IsNotExist e"
    then show ?thesis using Inr by (simp add: bootstrap_stat_error)
  next
    assume m: "missing fs p"
    obtain fs1 r where mk: "os_MkdirAll fs (filepath_Dir env p) = (fs1, r)"
      by (cases "os_MkdirAll fs (filepath_Dir env p)")
    show ?thesis
    proof (cases r)
      case (Some e)
      then show ?thesis using bootstrap_mkdir_error[OF Inr m] mk by simp
    next
      case None
      then show ?thesis
        using bootstrap_install[OF Inr m] mk Inr m by (simp add: os_MkdirAll_ok)
    qed
  qed
qed


lemma bootstrap_written:
  assumes "files (fst (WriteBundledDBIfMissing yaml env fs)) \<noteq> files fs"
  shows "\<exists>p db. DefaultDBPath env = Inr p \<and> missing fs p \<and>
           yaml (bundledVersionsYAML env) = Inr db \<and> Validate db = None \<and>
           snd (WriteBundledDBIfMissing yaml env fs) = None \<and>
           files (fst (WriteBundledDBIfMissing yaml env fs))
             = (files fs)(p \<mapsto> bundledVersionsYAML env)"
proof -
  from bootstrap_outcomes[of yaml env fs] show ?thesis
  proof (elim disjE exE conjE)
    fix r assume "WriteBundledDBIfMissing yaml env fs = (fs, r)"
    then show ?thesis using assms by simp
  next
    fix p
    assume p: "DefaultDBPath env = Inr p" "missing fs p"
      and w: "WriteBundledDBIfMissing yaml env fs =
                install_bundled yaml env (fs\<lparr>dirs := insert (filepath_Dir env p) (dirs fs)\<rparr>) p"
    from install_cases[of yaml env "fs\<lparr>dirs := insert (filepath_Dir env p) (dirs fs)\<rparr>" p]
    show ?thesis
    proof (elim disjE exE conjE)
      fix e
      assume "install_bundled yaml env (fs\<lparr>dirs := insert (filepath_Dir env p) (dirs fs)\<rparr>) p
                = (fs\<lparr>dirs := insert (filepath_Dir env p) (dirs fs)\<rparr>, Some e)"
      then show ?thesis using assms w by simp
    next
      fix db
      assume "yaml (bundledVersionsYAML env) = Inr db" "Validate db = None"
        and "install_bundled yaml env (fs\<lparr>dirs := insert (filepath_Dir env p) (dirs fs)\<rparr>) p =
          (fs\<lparr>dirs := insert (filepath_Dir env p) (dirs fs)\<rparr>
             \<lparr>files := (files (fs\<lparr>dirs := insert (filepath_Dir env p) (dirs fs)\<rparr>))
                        (p \<mapsto> bundledVersionsYAML env)\<rparr>, None)"
      then show ?thesis using p w by simp
    qed
  qed
qed

lemma bootstrap_rejected:
  assumes "bundled_rejected yaml env"
  shows "files (fst (WriteBundledDBIfMissing yaml env fs)) = files fs"
proof (rule ccontr)
  assume "files (fst (WriteBundledDBIfMissing yaml env fs)) \<noteq> files fs"
  from bootstrap_written[OF this] assms show False
    by (auto simp: bundled_rejected_def)
qed

lemma bootstrap_rejected_error:
  assumes "bundled_rejected yaml env" "snd (WriteBundledDBIfMissing yaml env fs) = None"
  shows "\<exists>p. DefaultDBPath env = Inr p \<and> os_Stat fs p = None"
proof -
  from bootstrap_outcomes[of yaml env fs] show ?thesis
  proof (elim disjE exE conjE)
    fix r
    assume "WriteBundledDBIfMissing yaml env fs = (fs, r)"
      and "r = None \<longrightarrow> (\<exists>p. DefaultDBPath env = Inr p \<and> os_Stat fs p = None)"
    then show ?thesis using assms(2) by simp
  next
    fix p
    assume "WriteBundledDBIfMissing yaml env fs =
              install_bundled yaml env (fs\<lparr>dirs := insert (filepath_Dir env p) (dirs fs)\<rparr>) p"
    then show ?thesis
      using assms(2)
        install_rejected[OF assms(1), of "fs\<lparr>dirs := insert (filepath_Dir env p) (dirs fs)\<rparr>" p]
      by auto
  qed
qed

lemma bootstrap_files_kept:
  assumes "DefaultDBPath env = Inr p" "files fs p = Some content"
  shows "fst (WriteBundledDBIfMissing yaml env fs) = fs"
proof -
  from bootstrap_outcomes[of yaml env fs] show ?thesis
  proof (elim disjE exE conjE)
    fix r assume "WriteBundledDBIfMissing yaml env fs = (fs, r)"
    then show ?thesis by simp
  next
    fix p' assume "DefaultDBPath env = Inr p'" "missing fs p'"
    then show ?thesis using assms by (auto simp: missing_def)
  qed
qed

lemma bootstrap_again:
  "fst (WriteBundledDBIfMissing yaml env (fst (WriteBundledDBIfMissing yaml env fs)))
     = fst (WriteBundledDBIfMissing yaml env fs) \<and>
   (snd (WriteBundledDBIfMissing yaml env fs) = None \<longrightarrow>
      snd (WriteBundledDBIfMissing yaml env (fst (WriteBundledDBIfMissing yaml env fs))) = None)"
proof -
  from bootstrap_outcomes[of yaml env fs] show ?thesis
  proof (elim disjE exE conjE)
    fix r assume "WriteBundledDBIfMissing yaml env fs = (fs, r)"
    then show ?thesis by simp
  next
    fix p
    define d where "d = filepath_Dir env p"
    define fs1 where "fs1 = fs\<lparr>dirs := insert d (dirs fs)\<rparr>"
    assume p: "DefaultDBPath env = Inr p" "missing fs p"
      and w: "WriteBundledDBIfMissing yaml env fs =
                install_bundled yaml env (fs\<lparr>dirs := insert (filepath_Dir env p) (dirs fs)\<rparr>) p"
    have w1: "WriteBundledDBIfMissing yaml env fs = install_bundled yaml env fs1 p"
      using w by (simp add: fs1_def d_def)
    have same: "fs1\<lparr>dirs := insert d (dirs fs1)\<rparr> = fs1"
      by (simp add: fs1_def)
    from install_cases[of yaml env fs1 p] show ?thesis
    proof (elim disjE exE conjE)
      fix e assume i: "install_bundled yaml env fs1 p = (fs1, Some e)"
      have "fst (WriteBundledDBIfMissing yaml env fs1) = fs1"
        using bootstrap_outcomes[of yaml env fs1]
      proof (elim disjE exE conjE)
        fix r assume "WriteBundledDBIfMissing yaml env fs1 = (fs1, r)"
        then show ?thesis by simp
      next
        fix p'
        assume "DefaultDBPath env = Inr p'"
          and "WriteBundledDBIfMissing yaml env fs1 =
                 install_bundled yaml env (fs1\<lparr>dirs := insert (filepath_Dir env p') (dirs fs1)\<rparr>) p'"
        then show ?thesis using p(1) i same by (simp add: d_def)
      qed
      then show ?thesis using w1 i by simp
    next
      fix db
      assume i: "install_bundled yaml env fs1 p =
                   (fs1\<lparr>files := (files fs1)(p \<mapsto> bundledVersionsYAML env)\<rparr>, None)"
      have "os_Stat (fs1\<lparr>files := (files fs1)(p \<mapsto> bundledVersionsYAML env)\<rparr>) p = None"
        using p(2) by (simp add: os_Stat_None missing_def fs1_def)
      from bootstrap_exists[OF p(1) this] show ?thesis using w1 i by simp
    qed
  qed
qed

text \<open>
  Claim C6. When \<open>os.Stat\<close> finds the default path, \<open>WriteBundledDBIfMissing\<close> returns
  success and leaves the file system as it is; a file at the default path is never
  changed, whatever the call returns. Calling the bootstrap a second time leaves the file
  system as the first call left it, and after a first call that succeeded the second one
  succeeds without any change.
\<close>

theorem WriteBundledDBIfMissing_existing_file:
  "(DefaultDBPath env = Inr path \<and> os_Stat fs path = None \<longrightarrow>
      WriteBundledDBIfMissing yaml env fs = (fs, None)) \<and>
   (DefaultDBPath env = Inr path \<and> files fs path = Some content \<longrightarrow>
      fst (WriteBundledDBIfMissing yaml env fs) = fs) \<and>
   fst (WriteBundledDBIfMissing yaml env (fst (WriteBundledDBIfMissing yaml env fs)))
     = fst (WriteBundledDBIfMissing yaml env fs) \<and>
   (snd (WriteBundledDBIfMissing yaml env fs) = None \<longrightarrow>
      WriteBundledDBIfMissing yaml env (fst (WriteBundledDBIfMissing yaml env fs))
        = (fst (WriteBundledDBIfMissing yaml env fs), None))"
  using bootstrap_exists [of env path fs yaml] bootstrap_files_kept [of env path fs content yaml]
    bootstrap_again [of yaml env fs]
  by (simp add: prod_eq_iff)

theorem WriteBundledDBIfMissing_existing_file_witness:
  "DefaultDBPath sample_process = Inr sample_path \<and>
   os_Stat user_filesystem sample_path = None \<and>
   files user_filesystem sample_path = Some ''schema_version: 2'' \<and>
   WriteBundledDBIfMissing (decode_to (single_version ''2.31.1'')) sample_process user_filesystem
     = (user_filesystem, None) \<and>
   snd (WriteBundledDBIfMissing (decode_to (single_version ''2.31.1'')) sample_process
          empty_filesystem) = None \<and>
   WriteBundledDBIfMissing (decode_to (single_version ''2.31.1'')) sample_process
       (fst (WriteBundledDBIfMissing (decode_to (single_version ''2.31.1'')) sample_process
               empty_filesystem))
     = (fst (WriteBundledDBIfMissing (decode_to (single_version ''2.31.1'')) sample_process
               empty_filesystem), None)"
proof -
  have dp: "DefaultDBPath sample_process = Inr sample_path"
    by code_simp
  have st: "os_Stat user_filesystem sample_path = None"
    by (simp add: os_Stat_def user_filesystem_def empty_filesystem_def)
  have fl: "files user_filesystem sample_path = Some ''schema_version: 2''"
    by (simp add: user_filesystem_def)
  have ok: "snd (WriteBundledDBIfMissing (decode_to (single_version ''2.31.1'')) sample_process
                   empty_filesystem) = None"
    by code_simp
  show ?thesis
    using dp st fl ok
      WriteBundledDBIfMissing_existing_file [of sample_process sample_path user_filesystem
        "decode_to (single_version ''2.31.1'')" "''schema_version: 2''"]
      WriteBundledDBIfMissing_existing_file [of sample_process sample_path empty_filesystem
        "decode_to (single_version ''2.31.1'')" "''schema_version: 2''"]
    by simp
qed

text \<open>
  Claim C7. The bundled document is parsed and validated before \<open>os.WriteFile\<close> is called.
  If the document does not parse or does not validate, no file is created or changed, and
  the call returns an error whenever \<open>os.Stat\<close> has not found the target (when it has, the
  call returns before it looks at the bundled document). Whenever the files differ after
  the call, the only difference is the default path, which holds the bundled document, and
  that document parsed to a registry that passed \<open>Validate\<close>. The directory is created before
  the document is validated.
\<close>

theorem WriteBundledDBIfMissing_validates_first:
  "(bundled_rejected yaml env \<longrightarrow>
      files (fst (WriteBundledDBIfMissing yaml env fs)) = files fs \<and>
      (DefaultDBPath env = Inr path \<and> os_Stat fs path \<noteq> None \<longrightarrow>
         snd (WriteBundledDBIfMissing yaml env fs) \<noteq> None)) \<and>
   (files (fst (WriteBundledDBIfMissing yaml env fs)) \<noteq> files fs \<longrightarrow>
      (\<exists>p db. DefaultDBPath env = Inr p \<and>
              yaml (bundledVersionsYAML env) = Inr db \<and> Validate db = None \<and>
              files (fst (WriteBundledDBIfMissing yaml env fs))
                = (files fs)(p \<mapsto> bundledVersionsYAML env)))"
proof (intro conjI impI)
  assume "bundled_rejected yaml env"
  then show "files (fst (WriteBundledDBIfMissing yaml env fs)) = files fs"
    by (rule bootstrap_rejected)
next
  assume r: "bundled_rejected yaml env"
    and p: "DefaultDBPath env = Inr path \<and> os_Stat fs path \<noteq> None"
  show "snd (WriteBundledDBIfMissing yaml env fs) \<noteq> None"
  proof
    assume "snd (WriteBundledDBIfMissing yaml env fs) = None"
    from bootstrap_rejected_error[OF r this] p show False by auto
  qed
next
  assume "files (fst (WriteBundledDBIfMissing yaml env fs)) \<noteq> files fs"
  from bootstrap_written[OF this]
  show "\<exists>p db. DefaultDBPath env = Inr p \<and>
              yaml (bundledVersionsYAML env) = Inr db \<and> Validate db = None \<and>
              files (fst (WriteBundledDBIfMissing yaml env fs))
                = (files fs)(p \<mapsto> bundledVersionsYAML env)"
    by blast
qed

theorem WriteBundledDBIfMissing_validates_first_witness:
  "bundled_rejected decode_error sample_process \<and>
   bundled_rejected (decode_to faulty_registry) sample_process \<and>
   DefaultDBPath sample_process = Inr sample_path \<and>
   os_Stat empty_filesystem sample_path \<noteq> None \<and>
   snd (WriteBundledDBIfMissing decode_error sample_process empty_filesystem) \<noteq> None \<and>
   files (fst (WriteBundledDBIfMissing decode_error sample_process empty_filesystem))
     = files empty_filesystem \<and>
   ''/home/u/.config/1password-secrets/action''
     \<in> dirs (fst (WriteBundledDBIfMissing decode_error sample_process empty_filesystem)) \<and>
   snd (WriteBundledDBIfMissing (decode_to faulty_registry) sample_process empty_filesystem)
     \<noteq> None \<and>
   files (fst (WriteBundledDBIfMissing (decode_to faulty_registry) sample_process
                 empty_filesystem))
     = files empty_filesystem \<and>
   files (fst (WriteBundledDBIfMissing (decode_to (single_version ''2.31.1'')) sample_process
                 empty_filesystem))
     \<noteq> files empty_filesystem \<and>
   (\<exists>p db. DefaultDBPath sample_process = Inr p \<and>
      decode_to (single_version ''2.31.1'') (bundledVersionsYAML sample_process) = Inr db \<and>
      Validate db = None \<and>
      files (fst (WriteBundledDBIfMissing (decode_to (single_version ''2.31.1'')) sample_process
                    empty_filesystem))
        = (files empty_filesystem)(p \<mapsto> bundledVersionsYAML sample_process))"
proof -
  have r1: "bundled_rejected decode_error sample_process"
    by (simp add: bundled_rejected_def decode_error_def)
  have "Validate faulty_registry \<noteq> None"
    by code_simp
  then have r2: "bundled_rejected (decode_to faulty_registry) sample_process"
    by (simp add: bundled_rejected_def decode_to_def)
  have dp: "DefaultDBPath sample_process = Inr sample_path"
    by code_simp
  have st: "os_Stat empty_filesystem sample_path \<noteq> None"
    by (simp add: os_Stat_def empty_filesystem_def)
  have "files (fst (WriteBundledDBIfMissing (decode_to (single_version ''2.31.1''))
                      sample_process empty_filesystem)) sample_path
          = Some (bundledVersionsYAML sample_process)"
    by code_simp
  moreover have "files empty_filesystem sample_path = None"
    by (simp add: empty_filesystem_def)
  ultimately have wr: "files (fst (WriteBundledDBIfMissing (decode_to (single_version ''2.31.1''))
                      sample_process empty_filesystem)) \<noteq> files empty_filesystem"
    by (metis option.distinct(1))
  have mk: "''/home/u/.config/1password-secrets/action''
     \<in> dirs (fst (WriteBundledDBIfMissing decode_error sample_process empty_filesystem))"
    by code_simp
  show ?thesis
    using r1 r2 dp st wr mk
      WriteBundledDBIfMissing_validates_first [of decode_error sample_process empty_filesystem
        sample_path]
      WriteBundledDBIfMissing_validates_first [of "decode_to faulty_registry" sample_process
        empty_filesystem sample_path]
      WriteBundledDBIfMissing_validates_first [of "decode_to (single_version ''2.31.1'')"
        sample_process empty_filesystem sample_path]
    by simp
qed

lemma escape_inj: "escape c @ xs = escape d @ ys \<Longrightarrow> c = d \<and> xs = ys"
  by (auto simp: escape_def split: if_splits)

lemma escape_not_Nil: "escape c @ xs \<noteq> []"
  by (simp add: escape_def)

lemma concat_escape_inj:
  "concat (map escape s) @ xs = concat (map escape t) @ xs \<Longrightarrow> s = t"
proof (induction s arbitrary: t)
  case Nil
  then show ?case
  proof (cases t)
    case Nil
    then show ?thesis by simp
  next
    case (Cons d ds)
    with Nil.prems have "escape d @ concat (map escape ds) = []"
      by simp
    then show ?thesis using escape_not_Nil by blast
  qed
next
  case (Cons c cs)
  show ?case
  proof (cases t)
    case Nil
    with Cons.prems have "escape c @ concat (map escape cs) = []"
      by simp
    then show ?thesis using escape_not_Nil by blast
  next
    case (Cons d ds)
    with Cons.prems
    have "escape c @ (concat (map escape cs) @ xs) = escape d @ (concat (map escape ds) @ xs)"
      by simp
    then have "c = d" "concat (map escape cs) @ xs = concat (map escape ds) @ xs"
      using escape_inj by blast+
    then show ?thesis using Cons.IH Cons by simp
  qed
qed

lemma fmt_q_inj: "fmt_q s = fmt_q t \<Longrightarrow> s = t"
  using concat_escape_inj[of s "[dquote]" t] by (simp add: fmt_q_def)

lemma stripLeading_newline: "stripLeading whiteSpace (newline # s) = stripLeading whiteSpace s"
  by (subst stripLeading.simps) (simp add: whiteSpace_def HasPrefix_def newline_def)

lemma stripTrailing_newline:
  "stripLeading (map rev whiteSpace) (newline # s) = stripLeading (map rev whiteSpace) s"
  by (subst stripLeading.simps) (simp add: whiteSpace_def HasPrefix_def newline_def)

lemma TrimSpace_document:
  assumes "\<forall>t \<in> set whiteSpace. t \<noteq> [] \<longrightarrow> hd t \<noteq> c"
    and "\<forall>t \<in> set (map rev whiteSpace). t \<noteq> [] \<longrightarrow> hd t \<noteq> d"
  shows "TrimSpace (newline # c # m @ [d, newline]) = c # m @ [d]"
proof -
  have 1: "stripLeading whiteSpace (newline # c # m @ [d, newline]) = c # m @ [d, newline]"
    using assms(1) by (simp add: stripLeading_newline stripLeading_id)
  have 2: "stripLeading (map rev whiteSpace) (rev (c # m @ [d, newline])) = d # rev m @ [c]"
    using assms(2) stripLeading_id[of "map rev whiteSpace" d "rev m @ [c]"]
    by (simp add: stripTrailing_newline)
  show ?thesis
    unfolding TrimSpace_def 1 2 by simp
qed

lemma fmt_d_one: "fmt_d SchemaVersion_const = ''1''"
  by (simp add: SchemaVersion_const_def fmt_d_def digits.simps digit_char_def)

lemma bundledVersionsYAML_eq:
  "bundledVersionsYAML env =
     CHR ''s'' # (bundled_head @ fmt_q (startTime env) @ bundled_tail) @ [dquote]"
proof -
  have s: "\<forall>t \<in> set whiteSpace. t \<noteq> [] \<longrightarrow> hd t \<noteq> CHR ''s''"
    by (simp add: whiteSpace_def)
  have q: "\<forall>t \<in> set (map rev whiteSpace). t \<noteq> [] \<longrightarrow> hd t \<noteq> dquote"
    by (simp add: whiteSpace_def dquote_def)
  have "bundledVersionsYAML env =
          TrimSpace (newline # CHR ''s'' # (bundled_head @ fmt_q (startTime env) @ bundled_tail)
                       @ [dquote, newline])"
    by (simp add: bundledVersionsYAML_def bundled_head_def bundled_tail_def quoted_line_def
          fmt_d_one eval_nat_numeral)
  then show ?thesis
    by (simp only: TrimSpace_document[OF s q])
qed

lemma bundledVersionsYAML_inj:
  "bundledVersionsYAML env1 = bundledVersionsYAML env2 \<longleftrightarrow> startTime env1 = startTime env2"
  by (auto simp: bundledVersionsYAML_eq dest: fmt_q_inj)

text \<open>
  Claim C8, as amended. The content that the bootstrap writes is a function of the start
  time of the process alone: two invocations that perform a write, whatever their parsers,
  file systems, home directories and paths, write the same bytes exactly when the
  \<open>generated_at\<close> time stamps of their processes agree (as they do for two invocations in
  one process).
\<close>

theorem WriteBundledDBIfMissing_content:
  assumes "files (fst (WriteBundledDBIfMissing yaml1 env1 fs1)) \<noteq> files fs1"
    and "files (fst (WriteBundledDBIfMissing yaml2 env2 fs2)) \<noteq> files fs2"
  shows "\<exists>p1 p2 c1 c2.
           DefaultDBPath env1 = Inr p1 \<and> DefaultDBPath env2 = Inr p2 \<and>
           files (fst (WriteBundledDBIfMissing yaml1 env1 fs1)) p1 = Some c1 \<and>
           files (fst (WriteBundledDBIfMissing yaml2 env2 fs2)) p2 = Some c2 \<and>
           (c1 = c2) = (startTime env1 = startTime env2)"
proof -
  obtain p1 where 1: "DefaultDBPath env1 = Inr p1"
      "files (fst (WriteBundledDBIfMissing yaml1 env1 fs1))
         = (files fs1)(p1 \<mapsto> bundledVersionsYAML env1)"
    using bootstrap_written[OF assms(1)] by blast
  obtain p2 where 2: "DefaultDBPath env2 = Inr p2"
      "files (fst (WriteBundledDBIfMissing yaml2 env2 fs2))
         = (files fs2)(p2 \<mapsto> bundledVersionsYAML env2)"
    using bootstrap_written[OF assms(2)] by blast
  show ?thesis
    using 1 2 bundledVersionsYAML_inj[of env1 env2] by simp
qed

theorem WriteBundledDBIfMissing_content_witness:
  "files (fst (WriteBundledDBIfMissing (decode_to (single_version ''2.31.1'')) sample_process
                 empty_filesystem)) \<noteq> files empty_filesystem \<and>
   files (fst (WriteBundledDBIfMissing (decode_to (single_version ''2.31.1''))
                 other_home_process user_filesystem)) \<noteq> files user_filesystem \<and>
   startTime sample_process = startTime other_home_process \<and>
   (\<exists>p1 p2 c1 c2.
      DefaultDBPath sample_process = Inr p1 \<and> DefaultDBPath other_home_process = Inr p2 \<and>
      files (fst (WriteBundledDBIfMissing (decode_to (single_version ''2.31.1'')) sample_process
                    empty_filesystem)) p1 = Some c1 \<and>
      files (fst (WriteBundledDBIfMissing (decode_to (single_version ''2.31.1''))
                    other_home_process user_filesystem)) p2 = Some c2 \<and>
      (c1 = c2) = (startTime sample_process = startTime other_home_process))"
proof -
  have "files (fst (WriteBundledDBIfMissing (decode_to (single_version ''2.31.1''))
                      sample_process empty_filesystem)) sample_path
          = Some (bundledVersionsYAML sample_process)"
    by code_simp
  moreover have "files empty_filesystem sample_path = None"
    by (simp add: empty_filesystem_def)
  ultimately have w1: "files (fst (WriteBundledDBIfMissing (decode_to (single_version ''2.31.1''))
                      sample_process empty_filesystem)) \<noteq> files empty_filesystem"
    by (metis option.distinct(1))
  have "files (fst (WriteBundledDBIfMissing (decode_to (single_version ''2.31.1''))
                      other_home_process user_filesystem)) other_home_path
          = Some (bundledVersionsYAML other_home_process)"
    by code_simp
  moreover have "files user_filesystem other_home_path = None"
    by (simp add: user_filesystem_def empty_filesystem_def other_home_path_def sample_path_def)
  ultimately have w2: "files (fst (WriteBundledDBIfMissing (decode_to (single_version ''2.31.1''))
                      other_home_process user_filesystem)) \<noteq> files user_filesystem"
    by (metis option.distinct(1))
  have t: "startTime sample_process = startTime other_home_process"
    by (simp add: sample_process_def other_home_process_def unix_process_def)
  show ?thesis
    using w1 w2 t WriteBundledDBIfMissing_content [OF w1 w2]
    by blast
qed

text \<open>
  The claim as stated has any two invocations write the same bytes. The bundled document
  contains \<open>time.Now()\<close> of the package initialisation in its \<open>generated_at\<close> line: two
  processes started one second apart both install the document, and the two files differ.
\<close>

theorem WriteBundledDBIfMissing_start_time_counterexample:
  "DefaultDBPath sample_process = Inr sample_path \<and>
   DefaultDBPath later_process = Inr sample_path \<and>
   WriteBundledDBIfMissing (decode_to (single_version ''2.31.1'')) sample_process
       empty_filesystem
     = (empty_filesystem\<lparr>dirs := {''/home/u/.config/1password-secrets/action''},
           files := [sample_path \<mapsto> bundledVersionsYAML sample_process]\<rparr>, None) \<and>
   WriteBundledDBIfMissing (decode_to (single_version ''2.31.1'')) later_process
       empty_filesystem
     = (empty_filesystem\<lparr>dirs := {''/home/u/.config/1password-secrets/action''},
           files := [sample_path \<mapsto> bundledVersionsYAML later_process]\<rparr>, None) \<and>
   bundledVersionsYAML sample_process \<noteq> bundledVersionsYAML later_process"
proof -
  have dp: "DefaultDBPath sample_process = Inr sample_path"
      "DefaultDBPath later_process = Inr sample_path"
    by code_simp+
  have dir: "filepath_Dir sample_process sample_path = ''/home/u/.config/1password-secrets/action''"
      "filepath_Dir later_process sample_path = ''/home/u/.config/1password-secrets/action''"
    by code_simp+
  have m: "missing empty_filesystem sample_path"
    by (simp add: missing_def empty_filesystem_def)
  have mk: "os_MkdirAll empty_filesystem ''/home/u/.config/1password-secrets/action''
              = (empty_filesystem\<lparr>dirs := {''/home/u/.config/1password-secrets/action''}\<rparr>, None)"
    by (simp add: os_MkdirAll_def empty_filesystem_def)
  have v: "Validate (single_version ''2.31.1'') = None"
    by code_simp
  have i: "install_bundled (decode_to (single_version ''2.31.1'')) env
             (empty_filesystem\<lparr>dirs := {''/home/u/.config/1password-secrets/action''}\<rparr>) sample_path
           = (empty_filesystem\<lparr>dirs := {''/home/u/.config/1password-secrets/action''},
                files := [sample_path \<mapsto> bundledVersionsYAML env]\<rparr>, None)" for env
    using v by (simp add: install_bundled_def decode_to_def os_WriteFile_def empty_filesystem_def
          sample_path_def)
  have ne: "bundledVersionsYAML sample_process \<noteq> bundledVersionsYAML later_process"
    by code_simp
  show ?thesis
    using dp ne i
      bootstrap_install [OF dp(1) m, of "empty_filesystem\<lparr>dirs := {''/home/u/.config/1password-secrets/action''}\<rparr>"
         "decode_to (single_version ''2.31.1'')"]
      bootstrap_install [OF dp(2) m, of "empty_filesystem\<lparr>dirs := {''/home/u/.config/1password-secrets/action''}\<rparr>"
         "decode_to (single_version ''2.31.1'')"]
      mk dir
    by simp
qed

subsection \<open>The loader\<close>

lemma Contains_self: "Contains (p @ b) p"
proof (cases "p @ b")
  case Nil
  then show ?thesis by simp
next
  case (Cons c cs)
  have "HasPrefix (p @ b) p" by (simp add: HasPrefix_def)
  then show ?thesis using Cons by simp
qed

lemma Contains_append: "Contains (a @ p @ b) p"
proof (induction a)
  case Nil
  show ?case using Contains_self by simp
next
  case (Cons c a)
  then show ?case by simp
qed

lemma Validate_Some:
  "Validate db = Some err \<Longrightarrow> err = ValidationError (Validate_errs db) \<and> Validate_errs db \<noteq> []"
  by (auto simp: Validate_def Let_def split: if_splits)

text \<open>
  Claim C9, as amended. A read failure and a parse failure are returned as wrapped errors
  whose message names the path and ends with the message of the cause, which \<open>Unwrap\<close>
  gives. A validation failure is returned as the \<open>ValidationError\<close> itself, with its
  non-empty list of violations, not wrapped and without the path. A registry is returned
  only when the file was read, parsed and validated; on a failure the result is the error
  alone.
\<close>

theorem loadDBFromPath_failures:
  "(os_ReadFile fs path = Inl err \<longrightarrow>
      loadDBFromPath yaml fs path =
        Inl (WrapError (''failed to read versions DB at '' @ path @ '': '' @ Error err) err) \<and>
      Contains (''failed to read versions DB at '' @ path @ '': '' @ Error err) path) \<and>
   (os_ReadFile fs path = Inr content \<and> yaml content = Inl err \<longrightarrow>
      loadDBFromPath yaml fs path =
        Inl (WrapError (''failed to parse YAML versions DB at '' @ path @ '': '' @ Error err) err) \<and>
      Contains (''failed to parse YAML versions DB at '' @ path @ '': '' @ Error err) path) \<and>
   (os_ReadFile fs path = Inr content \<and> yaml content = Inr db \<and> Validate db = Some err \<longrightarrow>
      loadDBFromPath yaml fs path = Inl err \<and>
      err = ValidationError (Validate_errs db) \<and> Validate_errs db \<noteq> []) \<and>
   (loadDBFromPath yaml fs path = Inr db \<longrightarrow>
      Validate db = None \<and>
      (\<exists>bytes. os_ReadFile fs path = Inr bytes \<and> yaml bytes = Inr db))"
proof (intro conjI impI)
  assume "os_ReadFile fs path = Inl err"
  then show "loadDBFromPath yaml fs path =
        Inl (WrapError (''failed to read versions DB at '' @ path @ '': '' @ Error err) err)"
    by (simp add: loadDBFromPath_def Errorf_w_def)
next
  show "Contains (''failed to read versions DB at '' @ path @ '': '' @ Error err) path"
    by (rule Contains_append)
next
  assume "os_ReadFile fs path = Inr content \<and> yaml content = Inl err"
  then show "loadDBFromPath yaml fs path =
        Inl (WrapError (''failed to parse YAML versions DB at '' @ path @ '': '' @ Error err) err)"
    by (simp add: loadDBFromPath_def Errorf_w_def)
next
  show "Contains (''failed to parse YAML versions DB at '' @ path @ '': '' @ Error err) path"
    by (rule Contains_append)
next
  assume "os_ReadFile fs path = Inr content \<and> yaml content = Inr db \<and> Validate db = Some err"
  then show "loadDBFromPath yaml fs path = Inl err"
    by (simp add: loadDBFromPath_def)
next
  assume "os_ReadFile fs path = Inr content \<and> yaml content = Inr db \<and> Validate db = Some err"
  then show "err = ValidationError (Validate_errs db)" "Validate_errs db \<noteq> []"
    using Validate_Some by blast+
next
  assume l: "loadDBFromPath yaml fs path = Inr db"
  then show "Validate db = None"
    by (auto simp: loadDBFromPath_def split: sum.splits option.splits)
  from l show "\<exists>bytes. os_ReadFile fs path = Inr bytes \<and> yaml bytes = Inr db"
    by (auto simp: loadDBFromPath_def split: sum.splits option.splits)
qed

theorem loadDBFromPath_failures_witness:
  "os_ReadFile empty_filesystem sample_path = Inl (PathError ''open'' sample_path ENOENT) \<and>
   loadDBFromPath decode_error empty_filesystem sample_path =
     Inl (WrapError
       (''failed to read versions DB at '' @ sample_path @ '': ''
          @ Error (PathError ''open'' sample_path ENOENT))
       (PathError ''open'' sample_path ENOENT)) \<and>
   os_ReadFile user_filesystem sample_path = Inr ''schema_version: 2'' \<and>
   decode_error ''schema_version: 2'' = Inl (YAMLError ''yaml: did not find expected key'') \<and>
   loadDBFromPath decode_error user_filesystem sample_path =
     Inl (WrapError
       (''failed to parse YAML versions DB at '' @ sample_path @ '': ''
          @ Error (YAMLError ''yaml: did not find expected key''))
       (YAMLError ''yaml: did not find expected key'')) \<and>
   decode_to schema2_registry ''schema_version: 2'' = Inr schema2_registry \<and>
   Validate schema2_registry = Some (ValidationError (Validate_errs schema2_registry)) \<and>
   loadDBFromPath (decode_to schema2_registry) user_filesystem sample_path
     = Inl (ValidationError (Validate_errs schema2_registry)) \<and>
   loadDBFromPath (decode_to (single_version ''2.31.1'')) user_filesystem sample_path
     = Inr (single_version ''2.31.1'') \<and>
   Validate (single_version ''2.31.1'') = None"
proof -
  have rd: "os_ReadFile empty_filesystem sample_path = Inl (PathError ''open'' sample_path ENOENT)"
    by (simp add: os_ReadFile_def empty_filesystem_def)
  have ru: "os_ReadFile user_filesystem sample_path = Inr ''schema_version: 2''"
    by (simp add: os_ReadFile_def user_filesystem_def empty_filesystem_def)
  have de: "decode_error ''schema_version: 2'' = Inl (YAMLError ''yaml: did not find expected key'')"
    by (simp add: decode_error_def)
  have d2: "decode_to schema2_registry ''schema_version: 2'' = Inr schema2_registry"
    by (simp add: decode_to_def)
  have v2: "Validate schema2_registry = Some (ValidationError (Validate_errs schema2_registry))"
    by code_simp
  have ok: "loadDBFromPath (decode_to (single_version ''2.31.1'')) user_filesystem sample_path
              = Inr (single_version ''2.31.1'')"
    by code_simp
  have vok: "Validate (single_version ''2.31.1'') = None"
    using ok
      loadDBFromPath_failures [where fs = user_filesystem and path = sample_path
        and yaml = "decode_to (single_version ''2.31.1'')" and db = "single_version ''2.31.1''"]
    by blast
  have a: "loadDBFromPath decode_error empty_filesystem sample_path =
     Inl (WrapError
       (''failed to read versions DB at '' @ sample_path @ '': ''
          @ Error (PathError ''open'' sample_path ENOENT))
       (PathError ''open'' sample_path ENOENT))"
    using rd
      loadDBFromPath_failures [where fs = empty_filesystem and path = sample_path
        and err = "PathError ''open'' sample_path ENOENT" and yaml = decode_error]
    by blast
  have b: "loadDBFromPath decode_error user_filesystem sample_path =
     Inl (WrapError
       (''failed to parse YAML versions DB at '' @ sample_path @ '': ''
          @ Error (YAMLError ''yaml: did not find expected key''))
       (YAMLError ''yaml: did not find expected key''))"
    using ru de
      loadDBFromPath_failures [where fs = user_filesystem and path = sample_path
        and err = "YAMLError ''yaml: did not find expected key''" and yaml = decode_error
        and content = "''schema_version: 2''"]
    by blast
  have c: "loadDBFromPath (decode_to schema2_registry) user_filesystem sample_path
     = Inl (ValidationError (Validate_errs schema2_registry))"
    using ru d2 v2
      loadDBFromPath_failures [where fs = user_filesystem and path = sample_path
        and err = "ValidationError (Validate_errs schema2_registry)"
        and yaml = "decode_to schema2_registry"
        and content = "''schema_version: 2''" and db = schema2_registry]
    by blast
  show ?thesis
    using rd a ru de b d2 v2 c ok vok by (intro conjI)
qed

text \<open>
  The claim as stated has every failure wrapped with the path. For a document that
  parses and fails validation the loader returns the error of \<open>Validate\<close> as it is: it is not
  a wrapping error, and its message does not contain the path.
\<close>

theorem loadDBFromPath_validation_counterexample:
  "loadDBFromPath (decode_to schema2_registry) user_filesystem sample_path
     = Inl (ValidationError
         [''unexpected schema_version=2 (expected 1)'', ''versions map is empty'']) \<and>
   Error (ValidationError
         [''unexpected schema_version=2 (expected 1)'', ''versions map is empty''])
     = ''schema validation failed: unexpected schema_version=2 (expected 1); versions map is empty'' \<and>
   \<not> Contains (Error (ValidationError
         [''unexpected schema_version=2 (expected 1)'', ''versions map is empty'']))
       sample_path"
  by code_simp

end
